theory Spec2Isabelle
  imports Main "HOL-Library.Word"
begin

unbundle bit_operations_syntax

section \<open>C strings\<close>

text \<open>
  A \<^verbatim>\<open>char *\<close> is a \<open>string option\<close>: \<open>None\<close> is the NULL pointer, \<open>Some []\<close> the
  empty string. The test \<^verbatim>\<open>p && p[0]\<close> of the source is \<open>nonempty p\<close>.
\<close>

type_synonym cstr = "string option"

definition nonempty :: "cstr \<Rightarrow> bool" where
  "nonempty p = (case p of None \<Rightarrow> False | Some v \<Rightarrow> v \<noteq> [])"

text \<open>
  GLib's NULL-tolerant comparison and libc's \<^verbatim>\<open>strcmp\<close>. The source only ever tests
  the result against zero, so the sign of a non-zero result is not modelled.
\<close>

definition g_strcmp0 :: "cstr \<Rightarrow> cstr \<Rightarrow> int" where
  "g_strcmp0 a b = (if a = b then 0 else 1)"

definition strcmp :: "string \<Rightarrow> string \<Rightarrow> int" where
  "strcmp a b = (if a = b then 0 else 1)"

section \<open>External collaborators\<close>

text \<open>
  Modelled from the spec: the SIM object of the missing \<^verbatim>\<open>ofono/sim.h\<close>, which offers a
  state (ready or not ready) and the MCC and MNC accessors.
\<close>

datatype ofono_sim_state = OFONO_SIM_STATE_NOT_READY | OFONO_SIM_STATE_READY

record ofono_sim =
  sim_state :: ofono_sim_state
  sim_mcc :: cstr
  sim_mnc :: cstr

text \<open>
  Modelled from the spec: what the accessors of the missing network registration atom
  return (status, MCC, MNC, operator name), and the two status values the source tests
  for, from the missing \<^verbatim>\<open>common.h\<close>.
\<close>

record ofono_netreg =
  netreg_status :: int
  netreg_mcc :: cstr
  netreg_mnc :: cstr
  netreg_name :: cstr

definition NETWORK_REGISTRATION_STATUS_REGISTERED :: int where
  "NETWORK_REGISTRATION_STATUS_REGISTERED = 1"

definition NETWORK_REGISTRATION_STATUS_ROAMING :: int where
  "NETWORK_REGISTRATION_STATUS_ROAMING = 5"

text \<open>
  Modelled from the spec: the Watch source of the missing \<^verbatim>\<open>ofono/sailfish_watch.h\<close>,
  with the current SIM object, ICCID, IMSI, SPN and netreg pointer. A netreg pointer is
  an address; \<open>netreg_at\<close> gives what the \<^verbatim>\<open>ofono_netreg_get_*\<close> accessors return
  for a pointer (NULL included), so nothing is assumed about them.
\<close>

record ofono_watch =
  watch_sim :: "ofono_sim option"
  watch_iccid :: cstr
  watch_imsi :: cstr
  watch_spn :: cstr
  watch_netreg :: "nat option"
  netreg_at :: "nat option \<Rightarrow> ofono_netreg"

text \<open>
  Modelled from the spec: the key-value store of the missing \<^verbatim>\<open>storage.h\<close>. Only two
  entries are ever read or written: field \<^verbatim>\<open>spn\<close> of group \<^verbatim>\<open>sim\<close> in the store
  \<^verbatim>\<open>cache\<close> private to an IMSI, and the field named by the ICCID in group \<^verbatim>\<open>imsi\<close> in the
  global store \<^verbatim>\<open>iccidmap\<close>. A commit (\<^verbatim>\<open>storage_close\<close> with \<^verbatim>\<open>TRUE\<close>) is logged
  with the key, the value the entry held before, and the value written.
\<close>

datatype store_write =
  Write_cache string cstr string
  | Write_iccidmap string cstr string

section \<open>The tracker\<close>

text \<open>
  \<^verbatim>\<open>struct sim_info_priv\<close>, followed by the world the tracker acts on: the two
  persisted entries per key, the log of commits, and the log of emitted signals. An
  emission is logged with the value of \<open>queued_signals\<close> at the moment
  \<^verbatim>\<open>g_signal_emit\<close> runs, which is what a handler would observe. The public fields of
  \<^verbatim>\<open>struct sim_info\<close> alias \<open>iccid\<close>, \<open>imsi\<close> and \<open>public_spn\<close>; the handler ids
  of the subscriptions are left out.
\<close>

record sim_info =
  netreg :: "nat option"
  iccid :: cstr
  imsi :: cstr
  cached_spn :: cstr
  sim_spn :: cstr
  public_spn :: cstr
  default_spn :: string
  update_imsi_cache :: bool
  update_iccid_map :: bool
  queued_signals :: "32 word"
  store_cache :: "string \<Rightarrow> cstr"
  store_iccidmap :: "string \<Rightarrow> cstr"
  writes :: "store_write list"
  emitted :: "(nat \<times> 32 word) list"

definition DEFAULT_SPN_BUFSIZE :: nat where
  "DEFAULT_SPN_BUFSIZE = 8"

definition SIGNAL_ICCID_CHANGED :: nat where
  "SIGNAL_ICCID_CHANGED = 0"

definition SIGNAL_IMSI_CHANGED :: nat where
  "SIGNAL_IMSI_CHANGED = 1"

definition SIGNAL_SPN_CHANGED :: nat where
  "SIGNAL_SPN_CHANGED = 2"

definition SIGNAL_COUNT :: nat where
  "SIGNAL_COUNT = 3"

subsection \<open>Signal coalescing\<close>

definition sim_info_signal_bit :: "nat \<Rightarrow> 32 word" where
  "sim_info_signal_bit sig = push_bit sig 1"

definition sim_info_signal_emit :: "sim_info \<Rightarrow> nat \<Rightarrow> sim_info" where
  "sim_info_signal_emit self sig =
     (let q = queued_signals self AND NOT (sim_info_signal_bit sig)
      in self\<lparr>queued_signals := q, emitted := emitted self @ [(sig, q)]\<rparr>)"

definition sim_info_signal_queue :: "sim_info \<Rightarrow> nat \<Rightarrow> sim_info" where
  "sim_info_signal_queue self sig =
     self\<lparr>queued_signals := queued_signals self OR sim_info_signal_bit sig\<rparr>"

function emit_loop :: "nat \<Rightarrow> sim_info \<Rightarrow> sim_info" where
  "emit_loop i self =
     (if queued_signals self \<noteq> 0 \<and> i < SIGNAL_COUNT
      then emit_loop (i + 1)
             (if queued_signals self AND sim_info_signal_bit i \<noteq> 0
              then sim_info_signal_emit self i else self)
      else self)"
  by pat_completeness auto
termination
  by (relation "measure (\<lambda>(i, self). SIGNAL_COUNT - i)") auto

declare emit_loop.simps [simp del]

definition sim_info_emit_queued_signals :: "sim_info \<Rightarrow> sim_info" where
  "sim_info_emit_queued_signals self = emit_loop 0 self"

subsection \<open>Persistence\<close>

definition sim_info_update_imsi_cache :: "sim_info \<Rightarrow> sim_info" where
  "sim_info_update_imsi_cache self =
     (case (imsi self, cached_spn self) of
        (Some k, Some v) \<Rightarrow>
          if update_imsi_cache self \<and> k \<noteq> [] \<and> v \<noteq> [] then
            let spn = store_cache self k;
                self1 = (if g_strcmp0 (Some v) spn \<noteq> 0
                         then self\<lparr>store_cache := (store_cache self)(k := Some v),
                                   writes := writes self @ [Write_cache k spn v]\<rparr>
                         else self)
            in self1\<lparr>update_imsi_cache := False\<rparr>
          else self
      | _ \<Rightarrow> self)"

definition sim_info_update_iccid_map :: "sim_info \<Rightarrow> sim_info" where
  "sim_info_update_iccid_map self =
     (case (iccid self, imsi self) of
        (Some k, Some v) \<Rightarrow>
          if update_iccid_map self \<and> k \<noteq> [] \<and> v \<noteq> [] then
            let imsi' = store_iccidmap self k;
                self1 = (if g_strcmp0 imsi' (Some v) \<noteq> 0
                         then self\<lparr>store_iccidmap := (store_iccidmap self)(k := Some v),
                                   writes := writes self @ [Write_iccidmap k imsi' v]\<rparr>
                         else self)
            in self1\<lparr>update_iccid_map := False\<rparr>
          else self
      | _ \<Rightarrow> self)"

subsection \<open>SPN derivation\<close>

definition sim_info_update_public_spn :: "sim_info \<Rightarrow> sim_info" where
  "sim_info_update_public_spn self =
     (let spn = (case sim_spn self of Some v \<Rightarrow> v
                 | None \<Rightarrow> (case cached_spn self of Some v \<Rightarrow> v
                            | None \<Rightarrow> default_spn self))
      in if g_strcmp0 (public_spn self) (Some spn) \<noteq> 0
         then sim_info_signal_queue
                (self\<lparr>public_spn := (if spn \<noteq> [] then Some spn else None)\<rparr>)
                SIGNAL_SPN_CHANGED
         else self)"

definition sim_info_set_cached_spn :: "sim_info \<Rightarrow> string \<Rightarrow> sim_info" where
  "sim_info_set_cached_spn self spn =
     (if g_strcmp0 (cached_spn self) (Some spn) \<noteq> 0
      then sim_info_update_public_spn
             (sim_info_update_imsi_cache
                (self\<lparr>cached_spn := Some spn, update_imsi_cache := True\<rparr>))
      else self)"

definition sim_info_set_spn :: "sim_info \<Rightarrow> string \<Rightarrow> sim_info" where
  "sim_info_set_spn self spn =
     (if g_strcmp0 (sim_spn self) (Some spn) \<noteq> 0
      then sim_info_update_public_spn
             (sim_info_update_imsi_cache
                (sim_info_set_cached_spn
                   (self\<lparr>sim_spn := Some spn, update_imsi_cache := True\<rparr>) spn))
      else self)"

definition sim_info_update_spn :: "ofono_watch \<Rightarrow> sim_info \<Rightarrow> sim_info" where
  "sim_info_update_spn watch self =
     (case watch_spn watch of
        Some v \<Rightarrow> if v \<noteq> [] then sim_info_set_spn self v else self
      | None \<Rightarrow> self)"

text \<open>
  The local buffer of \<^verbatim>\<open>sim_info_update_default_spn\<close>: \<^verbatim>\<open>snprintf\<close> into
  \<open>DEFAULT_SPN_BUFSIZE\<close> bytes keeps at most seven characters of MCC followed by MNC.
\<close>

definition default_spn_buf :: "ofono_watch \<Rightarrow> string" where
  "default_spn_buf watch =
     (let ready = (case watch_sim watch of
                     Some sim \<Rightarrow> sim_state sim = OFONO_SIM_STATE_READY
                   | None \<Rightarrow> False);
          mcc = (if ready then (case watch_sim watch of Some sim \<Rightarrow> sim_mcc sim
                                | None \<Rightarrow> None) else None);
          mnc = (if ready then (case watch_sim watch of Some sim \<Rightarrow> sim_mnc sim
                                | None \<Rightarrow> None) else None)
      in case (mcc, mnc) of
           (Some c, Some n) \<Rightarrow> take (DEFAULT_SPN_BUFSIZE - 1) (c @ n)
         | _ \<Rightarrow> [])"

definition sim_info_update_default_spn :: "ofono_watch \<Rightarrow> sim_info \<Rightarrow> sim_info" where
  "sim_info_update_default_spn watch self =
     (let buf = default_spn_buf watch
      in if strcmp buf (default_spn self) \<noteq> 0
         then sim_info_update_public_spn (self\<lparr>default_spn := buf\<rparr>)
         else self)"

subsection \<open>Identity tracking\<close>

definition sim_info_update_imsi :: "ofono_watch \<Rightarrow> sim_info \<Rightarrow> sim_info" where
  "sim_info_update_imsi watch self =
     (let imsi' = watch_imsi watch;
          self1 = (if nonempty imsi' \<and> g_strcmp0 (imsi self) imsi' \<noteq> 0
                   then sim_info_signal_queue
                          (sim_info_update_imsi_cache
                             (sim_info_update_iccid_map
                                (self\<lparr>imsi := imsi', update_iccid_map := True\<rparr>)))
                          SIGNAL_IMSI_CHANGED
                   else self)
      in sim_info_update_default_spn watch self1)"

definition sim_info_network_check :: "ofono_watch \<Rightarrow> sim_info \<Rightarrow> sim_info" where
  "sim_info_network_check watch self =
     (let reg_status = netreg_status (netreg_at watch (netreg self))
      in case watch_sim watch of
           None \<Rightarrow> self
         | Some sim \<Rightarrow>
             if sim_state sim = OFONO_SIM_STATE_READY \<and>
                (reg_status = NETWORK_REGISTRATION_STATUS_REGISTERED \<or>
                 reg_status = NETWORK_REGISTRATION_STATUS_ROAMING)
             then
               (let net_mcc = netreg_mcc (netreg_at watch (netreg self));
                    net_mnc = netreg_mnc (netreg_at watch (netreg self));
                    name = netreg_name (netreg_at watch (netreg self))
                in if nonempty (sim_mcc sim) \<and> nonempty (sim_mnc sim) \<and>
                      nonempty net_mcc \<and> nonempty net_mnc \<and> nonempty name \<and>
                      sim_mcc sim = net_mcc \<and> sim_mnc sim = net_mnc
                   then (case (sim_spn self, name) of
                           (None, Some n) \<Rightarrow> sim_info_set_cached_spn self n
                         | _ \<Rightarrow> self)
                   else self)
             else self)"

text \<open>The two blocks of \<^verbatim>\<open>sim_info_load_cache\<close>, in the order the source runs them.\<close>

definition load_cache_imsi :: "ofono_watch \<Rightarrow> sim_info \<Rightarrow> sim_info" where
  "load_cache_imsi watch self =
     (case iccid self of
        None \<Rightarrow> self
      | Some k \<Rightarrow>
          if k \<noteq> [] then
            (let imsi' = store_iccidmap self k
             in if nonempty imsi' \<and> g_strcmp0 (imsi self) imsi' \<noteq> 0
                then
                  (let self1 = (if nonempty (imsi self)
                                then self\<lparr>update_imsi_cache := True\<rparr> else self)
                   in sim_info_signal_queue
                        (sim_info_update_default_spn watch
                           (sim_info_update_iccid_map (self1\<lparr>imsi := imsi'\<rparr>)))
                        SIGNAL_IMSI_CHANGED)
                else self)
          else self)"

definition load_cache_spn :: "sim_info \<Rightarrow> sim_info" where
  "load_cache_spn self =
     (case imsi self of
        None \<Rightarrow> self
      | Some k \<Rightarrow>
          if k \<noteq> [] then
            (let spn = store_cache self k
             in if nonempty spn \<and> g_strcmp0 (cached_spn self) spn \<noteq> 0
                then
                  (let self1 = (if nonempty (cached_spn self)
                                then self\<lparr>update_imsi_cache := True\<rparr> else self)
                   in sim_info_update_public_spn
                        (sim_info_update_imsi_cache (self1\<lparr>cached_spn := spn\<rparr>)))
                else self)
          else self)"

definition sim_info_load_cache :: "ofono_watch \<Rightarrow> sim_info \<Rightarrow> sim_info" where
  "sim_info_load_cache watch self = load_cache_spn (load_cache_imsi watch self)"

definition sim_info_set_iccid :: "ofono_watch \<Rightarrow> sim_info \<Rightarrow> cstr \<Rightarrow> sim_info" where
  "sim_info_set_iccid watch self iccid' =
     (if g_strcmp0 (iccid self) iccid' \<noteq> 0 then
        (let self1 = sim_info_signal_queue (self\<lparr>iccid := iccid'\<rparr>) SIGNAL_ICCID_CHANGED
         in if iccid' \<noteq> None then sim_info_load_cache watch self1
            else
              (let self2 = (if imsi self1 \<noteq> None
                            then sim_info_signal_queue (self1\<lparr>imsi := None\<rparr>)
                                   SIGNAL_IMSI_CHANGED
                            else self1);
                   self3 = (if sim_spn self2 \<noteq> None
                            then self2\<lparr>sim_spn := None\<rparr> else self2);
                   self4 = (if cached_spn self3 \<noteq> None
                            then self3\<lparr>cached_spn := None\<rparr> else self3)
               in sim_info_update_public_spn (self4\<lparr>default_spn := []\<rparr>)))
      else self)"

definition sim_info_set_netreg :: "ofono_watch \<Rightarrow> sim_info \<Rightarrow> nat option \<Rightarrow> sim_info" where
  "sim_info_set_netreg watch self netreg' =
     (if netreg self \<noteq> netreg' then
        (if netreg' \<noteq> None then sim_info_network_check watch (self\<lparr>netreg := netreg'\<rparr>)
         else if netreg self \<noteq> None then self\<lparr>netreg := None\<rparr>
         else self)
      else self)"

subsection \<open>Event handlers and construction\<close>

definition sim_info_iccid_watch_cb :: "ofono_watch \<Rightarrow> sim_info \<Rightarrow> sim_info" where
  "sim_info_iccid_watch_cb watch self =
     sim_info_emit_queued_signals (sim_info_set_iccid watch self (watch_iccid watch))"

definition sim_info_imsi_watch_cb :: "ofono_watch \<Rightarrow> sim_info \<Rightarrow> sim_info" where
  "sim_info_imsi_watch_cb watch self =
     sim_info_emit_queued_signals (sim_info_update_imsi watch self)"

definition sim_info_spn_watch_cb :: "ofono_watch \<Rightarrow> sim_info \<Rightarrow> sim_info" where
  "sim_info_spn_watch_cb watch self =
     sim_info_emit_queued_signals (sim_info_update_spn watch self)"

definition sim_info_netreg_watch :: "ofono_watch \<Rightarrow> sim_info \<Rightarrow> sim_info" where
  "sim_info_netreg_watch watch self =
     sim_info_emit_queued_signals (sim_info_network_check watch self)"

definition sim_info_netreg_changed :: "ofono_watch \<Rightarrow> sim_info \<Rightarrow> sim_info" where
  "sim_info_netreg_changed watch self =
     sim_info_emit_queued_signals (sim_info_set_netreg watch self (watch_netreg watch))"

text \<open>
  \<^verbatim>\<open>g_object_new\<close> hands out zeroed private data; the persisted entries are those of
  the store at that moment.
\<close>

definition sim_info_init :: "(string \<Rightarrow> cstr) \<Rightarrow> (string \<Rightarrow> cstr) \<Rightarrow> sim_info" where
  "sim_info_init cache iccidmap =
     \<lparr>netreg = None, iccid = None, imsi = None, cached_spn = None, sim_spn = None,
      public_spn = None, default_spn = [], update_imsi_cache = False,
      update_iccid_map = False, queued_signals = 0, store_cache = cache,
      store_iccidmap = iccidmap, writes = [], emitted = []\<rparr>"

text \<open>The constructor up to, but not including, the final clearing of \<open>queued_signals\<close>.\<close>

definition sim_info_new_hydrate :: "ofono_watch \<Rightarrow> sim_info \<Rightarrow> sim_info" where
  "sim_info_new_hydrate watch self =
     sim_info_network_check watch
       (sim_info_update_spn watch
          (sim_info_update_imsi watch
             (sim_info_set_netreg watch
                (sim_info_set_iccid watch self (watch_iccid watch))
                (watch_netreg watch))))"

definition sim_info_new ::
  "cstr \<Rightarrow> ofono_watch \<Rightarrow> (string \<Rightarrow> cstr) \<Rightarrow> (string \<Rightarrow> cstr) \<Rightarrow> sim_info option" where
  "sim_info_new path watch cache iccidmap =
     (if path \<noteq> None
      then Some ((sim_info_new_hydrate watch (sim_info_init cache iccidmap))
                   \<lparr>queued_signals := 0\<rparr>)
      else None)"

section \<open>Notions used to state the properties\<close>

text \<open>The emissions of one flush, and queuing one signal kind \<open>n\<close> times.\<close>

definition flushed :: "sim_info \<Rightarrow> (nat \<times> 32 word) list" where
  "flushed self =
     drop (length (emitted self)) (emitted (sim_info_emit_queued_signals self))"

definition queue_times :: "nat \<Rightarrow> nat \<Rightarrow> sim_info \<Rightarrow> sim_info" where
  "queue_times n sig self = ((\<lambda>t. sim_info_signal_queue t sig) ^^ n) self"

text \<open>
  The public SPN as the specification words it: the first non-empty value among the SIM's
  SPN, the cached SPN and the default SPN, and absent when there is none.
\<close>

definition spec_public_spn :: "cstr \<Rightarrow> cstr \<Rightarrow> string \<Rightarrow> cstr" where
  "spec_public_spn sim cached dflt =
     (if nonempty sim then sim
      else if nonempty cached then cached
      else if dflt \<noteq> [] then Some dflt
      else None)"

text \<open>
  Invariants of the tracker: no SPN field holds the empty string; the public SPN is the
  one the specification describes; every logged commit wrote a value other than the one
  the entry held; only the three signal bits are ever set.
\<close>

definition spn_wf :: "sim_info \<Rightarrow> bool" where
  "spn_wf self =
     (sim_spn self \<noteq> Some [] \<and> cached_spn self \<noteq> Some [] \<and> public_spn self \<noteq> Some [])"

definition public_ok :: "sim_info \<Rightarrow> bool" where
  "public_ok self =
     (public_spn self = spec_public_spn (sim_spn self) (cached_spn self) (default_spn self))"

fun write_changes :: "store_write \<Rightarrow> bool" where
  "write_changes (Write_cache k old v) = (old \<noteq> Some v)"
| "write_changes (Write_iccidmap k old v) = (old \<noteq> Some v)"

definition writes_minimal :: "store_write list \<Rightarrow> bool" where
  "writes_minimal ws = list_all write_changes ws"

definition signals_low :: "32 word \<Rightarrow> bool" where
  "signals_low q = (drop_bit SIGNAL_COUNT q = 0)"

text \<open>
  The states a tracker can be in between two upstream events: the constructor's result,
  then any sequence of the five event handlers, each with whatever the Watch and the
  network registration report at that moment; the persisted entries may change between
  events, since the store is shared with other writers.
\<close>

inductive reachable :: "sim_info \<Rightarrow> bool" where
  reach_new:
    "sim_info_new path watch cache iccidmap = Some self \<Longrightarrow> reachable self"
| reach_iccid:
    "reachable self \<Longrightarrow> reachable (sim_info_iccid_watch_cb watch self)"
| reach_imsi:
    "reachable self \<Longrightarrow> reachable (sim_info_imsi_watch_cb watch self)"
| reach_spn:
    "reachable self \<Longrightarrow> reachable (sim_info_spn_watch_cb watch self)"
| reach_netreg_watch:
    "reachable self \<Longrightarrow> reachable (sim_info_netreg_watch watch self)"
| reach_netreg_changed:
    "reachable self \<Longrightarrow> reachable (sim_info_netreg_changed watch self)"
| reach_store:
    "reachable self \<Longrightarrow>
     reachable (self\<lparr>store_cache := cache, store_iccidmap := iccidmap\<rparr>)"

text \<open>
  The home-network condition, as the specification lists it. An MCC or MNC is a string of
  digits (MCC always three, MNC two or three), so the codes of the SIM and of the network
  are equal when both sides have a code, present and non-empty, and the two are the same
  string.
\<close>

definition operator_name :: "ofono_watch \<Rightarrow> sim_info \<Rightarrow> cstr" where
  "operator_name watch self = netreg_name (netreg_at watch (netreg self))"

definition same_code :: "cstr \<Rightarrow> cstr \<Rightarrow> bool" where
  "same_code a b = (nonempty a \<and> nonempty b \<and> a = b)"

definition home_network :: "ofono_watch \<Rightarrow> sim_info \<Rightarrow> bool" where
  "home_network watch self =
     (case watch_sim watch of
        None \<Rightarrow> False
      | Some sim \<Rightarrow>
          sim_state sim = OFONO_SIM_STATE_READY \<and>
          (netreg_status (netreg_at watch (netreg self)) =
             NETWORK_REGISTRATION_STATUS_REGISTERED \<or>
           netreg_status (netreg_at watch (netreg self)) =
             NETWORK_REGISTRATION_STATUS_ROAMING) \<and>
          same_code (sim_mcc sim) (netreg_mcc (netreg_at watch (netreg self))) \<and>
          same_code (sim_mnc sim) (netreg_mnc (netreg_at watch (netreg self))) \<and>
          nonempty (operator_name watch self) \<and>
          sim_spn self = None)"

text \<open>Concrete collaborators for the examples: an empty store, and one netreg object
  behind every pointer.\<close>

definition no_entries :: "string \<Rightarrow> cstr" where
  "no_entries k = None"

definition one_entry :: "string \<Rightarrow> string \<Rightarrow> string \<Rightarrow> cstr" where
  "one_entry k v k' = (if k' = k then Some v else None)"

definition netreg_everywhere :: "ofono_netreg \<Rightarrow> nat option \<Rightarrow> ofono_netreg" where
  "netreg_everywhere r p = r"

definition unregistered :: ofono_netreg where
  "unregistered = \<lparr>netreg_status = 0, netreg_mcc = None, netreg_mnc = None,
                    netreg_name = None\<rparr>"

text \<open>A SIM on its home network, a Watch reporting it, and the tracker built from it.\<close>

definition home_sim :: ofono_sim where
  "home_sim = \<lparr>sim_state = OFONO_SIM_STATE_READY, sim_mcc = Some ''244'',
                sim_mnc = Some ''91''\<rparr>"

definition home_netreg :: ofono_netreg where
  "home_netreg = \<lparr>netreg_status = NETWORK_REGISTRATION_STATUS_REGISTERED,
                   netreg_mcc = Some ''244'', netreg_mnc = Some ''91'',
                   netreg_name = Some ''Operator''\<rparr>"

definition ex_watch :: ofono_watch where
  "ex_watch = \<lparr>watch_sim = Some home_sim, watch_iccid = Some ''8901'',
                watch_imsi = Some ''244910000000001'', watch_spn = Some ''RealSPN'',
                watch_netreg = None, netreg_at = netreg_everywhere unregistered\<rparr>"

definition ex_tracker :: sim_info where
  "ex_tracker =
     (sim_info_new_hydrate ex_watch (sim_info_init no_entries no_entries))
       \<lparr>queued_signals := 0\<rparr>"

definition tracker0 :: sim_info where
  "tracker0 = sim_info_init no_entries no_entries"

text \<open>What holds of the tracker between two upstream events.\<close>

definition tracker_inv :: "sim_info \<Rightarrow> bool" where
  "tracker_inv s =
     (spn_wf s \<and> public_ok s \<and> writes_minimal (writes s) \<and> queued_signals s = 0)"

text \<open>The value a flush reads back from the store before it decides to write.\<close>

definition stored_spn :: "sim_info \<Rightarrow> cstr" where
  "stored_spn self = (case imsi self of Some k \<Rightarrow> store_cache self k | None \<Rightarrow> None)"

definition stored_imsi :: "sim_info \<Rightarrow> cstr" where
  "stored_imsi self = (case iccid self of Some k \<Rightarrow> store_iccidmap self k | None \<Rightarrow> None)"

text \<open>A tracker whose two dirty flags are set, over an empty store and over a store
  that already holds its values.\<close>

definition dirty_tracker :: sim_info where
  "dirty_tracker = ex_tracker\<lparr>update_imsi_cache := True, update_iccid_map := True,
                               store_cache := no_entries, store_iccidmap := no_entries\<rparr>"

definition synced_tracker :: sim_info where
  "synced_tracker = ex_tracker\<lparr>update_imsi_cache := True, update_iccid_map := True\<rparr>"

text \<open>
  A netreg object attached at address 1 and nothing behind any other pointer; the
  example SIM with no SPN of its own, registered on its home network and roaming on a
  foreign one; and a fresh tracker with that netreg attached.
\<close>

definition no_netreg :: ofono_netreg where
  "no_netreg = \<lparr>netreg_status = - 1, netreg_mcc = None, netreg_mnc = None,
                 netreg_name = None\<rparr>"

definition netreg_only :: "ofono_netreg \<Rightarrow> nat option \<Rightarrow> ofono_netreg" where
  "netreg_only r p = (if p = Some 1 then r else no_netreg)"

definition home_watch :: ofono_watch where
  "home_watch = ex_watch\<lparr>watch_spn := None, watch_netreg := Some 1,
                         netreg_at := netreg_only home_netreg\<rparr>"

definition abroad_netreg :: ofono_netreg where
  "abroad_netreg = \<lparr>netreg_status = NETWORK_REGISTRATION_STATUS_ROAMING,
                     netreg_mcc = Some ''310'', netreg_mnc = Some ''26'',
                     netreg_name = Some ''Elsewhere''\<rparr>"

definition abroad_watch :: ofono_watch where
  "abroad_watch = ex_watch\<lparr>watch_spn := None, watch_netreg := Some 1,
                           netreg_at := netreg_only abroad_netreg\<rparr>"

definition attached_tracker :: sim_info where
  "attached_tracker = tracker0\<lparr>netreg := Some 1\<rparr>"

text \<open>A Watch that reports an IMSI but no ICCID, and the tracker built from it.\<close>

definition imsi_only_watch :: ofono_watch where
  "imsi_only_watch = \<lparr>watch_sim = None, watch_iccid = None,
                       watch_imsi = Some ''244910000000001'', watch_spn = None,
                       watch_netreg = None, netreg_at = netreg_everywhere unregistered\<rparr>"

definition imsi_only_tracker :: sim_info where
  "imsi_only_tracker = (sim_info_new_hydrate imsi_only_watch tracker0)\<lparr>queued_signals := 0\<rparr>"

text \<open>A Watch that reports nothing, and a tracker built over a store that already holds
  an SPN for the example IMSI.\<close>

definition null_watch :: ofono_watch where
  "null_watch = \<lparr>watch_sim = None, watch_iccid = None, watch_imsi = None,
                  watch_spn = None, watch_netreg = None,
                  netreg_at = netreg_everywhere unregistered\<rparr>"

definition carrier_tracker :: sim_info where
  "carrier_tracker =
     (sim_info_new_hydrate null_watch
        (sim_info_init (one_entry ''244910000000001'' ''MyCarrier'') no_entries))
       \<lparr>queued_signals := 0\<rparr>"

text \<open>The same store with the ICCID of that SIM in the map, and a Watch reporting the
  ICCID only.\<close>

definition known_tracker :: sim_info where
  "known_tracker =
     (sim_info_new_hydrate null_watch
        (sim_info_init (one_entry ''244910000000001'' ''MyCarrier'')
           (one_entry ''8901'' ''244910000000001'')))
       \<lparr>queued_signals := 0\<rparr>"

definition iccid_only_watch :: ofono_watch where
  "iccid_only_watch = null_watch\<lparr>watch_iccid := Some ''8901''\<rparr>"

text \<open>The example tracker over a map that knows a second SIM, and a Watch whose ICCID
  changes to that second SIM.\<close>

definition swap_tracker :: sim_info where
  "swap_tracker =
     (sim_info_new_hydrate ex_watch
        (sim_info_init no_entries (one_entry ''8902'' ''244910000000002'')))
       \<lparr>queued_signals := 0\<rparr>"

definition swap_watch :: ofono_watch where
  "swap_watch = ex_watch\<lparr>watch_iccid := Some ''8902''\<rparr>"

text \<open>The state in which \<^verbatim>\<open>sim_info_set_iccid\<close> then calls \<^verbatim>\<open>sim_info_load_cache\<close>.\<close>

definition swap_entry :: sim_info where
  "swap_entry =
     sim_info_signal_queue (swap_tracker\<lparr>iccid := Some ''8902''\<rparr>) SIGNAL_ICCID_CHANGED"

text \<open>
  The reads of the per-IMSI store (\<^verbatim>\<open>storage_open\<close> followed by
  \<^verbatim>\<open>g_key_file_get_string\<close>) that the cache flush and the second block of
  \<^verbatim>\<open>sim_info_load_cache\<close> perform, in the order the source performs them. The state
  functions above log the commits; these give the reads of the same runs.
\<close>

datatype store_read = Read_cache string

definition update_imsi_cache_reads :: "sim_info \<Rightarrow> store_read list" where
  "update_imsi_cache_reads self =
     (case (imsi self, cached_spn self) of
        (Some k, Some v) \<Rightarrow>
          if update_imsi_cache self \<and> k \<noteq> [] \<and> v \<noteq> [] then [Read_cache k] else []
      | _ \<Rightarrow> [])"

definition load_cache_spn_reads :: "sim_info \<Rightarrow> store_read list" where
  "load_cache_spn_reads self =
     (case imsi self of
        None \<Rightarrow> []
      | Some k \<Rightarrow>
          if k \<noteq> [] then
            (let spn = store_cache self k
             in Read_cache k #
                (if nonempty spn \<and> g_strcmp0 (cached_spn self) spn \<noteq> 0
                 then
                   (let self1 = (if nonempty (cached_spn self)
                                 then self\<lparr>update_imsi_cache := True\<rparr> else self)
                    in update_imsi_cache_reads (self1\<lparr>cached_spn := spn\<rparr>))
                 else []))
          else [])"

text \<open>The example tracker after the store was rewritten behind its back: the per-IMSI
  store now holds another SPN than the cached one, and the dirty flags are clear.\<close>

definition stale_tracker :: sim_info where
  "stale_tracker =
     ex_tracker\<lparr>store_cache := one_entry ''244910000000001'' ''MyCarrier'',
                 store_iccidmap := no_entries\<rparr>"

section \<open>Properties\<close>

subsection \<open>The flush loop\<close>

lemma signal_bit_test: "(w AND sim_info_signal_bit i \<noteq> 0) = bit w i"
  by (simp add: sim_info_signal_bit_def bit_iff_and_push_bit_not_eq_0)

lemma bit_clear_signal: "bit (w AND NOT (sim_info_signal_bit i)) j = (bit w j \<and> j \<noteq> i)"
  by (auto simp: sim_info_signal_bit_def bit_simps dest: bit_imp_le_length)

lemma bit_set_signal: "bit (w OR sim_info_signal_bit i) j = (bit w j \<or> (j = i \<and> i < 32))"
  by (auto simp: sim_info_signal_bit_def bit_simps)

lemma emit_loop_frame:
  "\<exists>q e. emit_loop i s = s\<lparr>queued_signals := q, emitted := e\<rparr>"
proof (induction i s rule: emit_loop.induct)
  case (1 i self)
  show ?case
  proof (cases "queued_signals self \<noteq> 0 \<and> i < SIGNAL_COUNT")
    case True
    let ?s' = "if queued_signals self AND sim_info_signal_bit i \<noteq> 0
              then sim_info_signal_emit self i else self"
    from 1 [OF True] obtain q e where
      "emit_loop (i + 1) ?s' = ?s'\<lparr>queued_signals := q, emitted := e\<rparr>" by blast
    then have "emit_loop i self = ?s'\<lparr>queued_signals := q, emitted := e\<rparr>"
      using True by (subst emit_loop.simps) simp
    then show ?thesis
      by (auto simp: sim_info_signal_emit_def Let_def intro!: exI)
  next
    case False
    have "emit_loop i self = self" by (subst emit_loop.simps) (simp only: False if_False)
    then have "emit_loop i self =
        self\<lparr>queued_signals := queued_signals self, emitted := emitted self\<rparr>"
      by simp
    then show ?thesis by blast
  qed
qed

lemma emit_loop_fst:
  "map fst (emitted (emit_loop i s)) =
     map fst (emitted s) @ filter (bit (queued_signals s)) [i..<SIGNAL_COUNT]"
proof (induction i s rule: emit_loop.induct)
  case (1 i self)
  show ?case
  proof (cases "queued_signals self \<noteq> 0 \<and> i < SIGNAL_COUNT")
    case True
    let ?s' = "if queued_signals self AND sim_info_signal_bit i \<noteq> 0
              then sim_info_signal_emit self i else self"
    have unfold: "emit_loop i self = emit_loop (i + 1) ?s'"
      using True by (subst emit_loop.simps) simp
    have rest: "filter (bit (queued_signals ?s')) [i + 1..<SIGNAL_COUNT] =
                filter (bit (queued_signals self)) [i + 1..<SIGNAL_COUNT]"
      by (rule filter_cong) (auto simp: sim_info_signal_emit_def Let_def bit_clear_signal)
    have upt: "[i..<SIGNAL_COUNT] = i # [i + 1..<SIGNAL_COUNT]"
      using True by (simp add: upt_conv_Cons)
    show ?thesis
      using 1 [OF True] unfolding unfold rest upt
      by (simp add: signal_bit_test sim_info_signal_emit_def Let_def)
  next
    case False
    have "emit_loop i self = self" by (subst emit_loop.simps) (simp only: False if_False)
    moreover have "filter (bit (queued_signals self)) [i..<SIGNAL_COUNT] = []"
      using False by auto
    ultimately show ?thesis by simp
  qed
qed

lemma emit_loop_snapshot:
  "\<exists>es. emitted (emit_loop i s) = emitted s @ es \<and> (\<forall>(j, p) \<in> set es. \<not> bit p j)"
proof (induction i s rule: emit_loop.induct)
  case (1 i self)
  show ?case
  proof (cases "queued_signals self \<noteq> 0 \<and> i < SIGNAL_COUNT")
    case True
    let ?s' = "if queued_signals self AND sim_info_signal_bit i \<noteq> 0
              then sim_info_signal_emit self i else self"
    have unfold: "emit_loop i self = emit_loop (i + 1) ?s'"
      using True by (subst emit_loop.simps) simp
    from 1 [OF True] obtain es where
      es: "emitted (emit_loop (i + 1) ?s') = emitted ?s' @ es" "\<forall>(j, p) \<in> set es. \<not> bit p j"
      by blast
    show ?thesis
    proof (cases "queued_signals self AND sim_info_signal_bit i \<noteq> 0")
      case True
      let ?e = "(i, queued_signals self AND NOT (sim_info_signal_bit i))"
      have "emitted (emit_loop i self) = emitted self @ (?e # es)"
        using es(1) True unfolding unfold by (simp add: sim_info_signal_emit_def Let_def)
      moreover have "\<forall>(j, p) \<in> set (?e # es). \<not> bit p j"
        using es(2) by (simp add: bit_clear_signal)
      ultimately show ?thesis by blast
    next
      case False
      then show ?thesis using es unfolding unfold by auto
    qed
  next
    case False
    have "emit_loop i self = self" by (subst emit_loop.simps) (simp only: False if_False)
    then show ?thesis by simp
  qed
qed

lemma emit_loop_bits:
  "bit (queued_signals (emit_loop i s)) j =
     (bit (queued_signals s) j \<and> (j < i \<or> SIGNAL_COUNT \<le> j))"
proof (induction i s arbitrary: j rule: emit_loop.induct)
  case (1 i self)
  show ?case
  proof (cases "queued_signals self \<noteq> 0 \<and> i < SIGNAL_COUNT")
    case True
    let ?s' = "if queued_signals self AND sim_info_signal_bit i \<noteq> 0
              then sim_info_signal_emit self i else self"
    have unfold: "emit_loop i self = emit_loop (i + 1) ?s'"
      using True by (subst emit_loop.simps) simp
    show ?thesis
      using 1 [OF True, of j] True unfolding unfold
      by (auto simp: signal_bit_test sim_info_signal_emit_def Let_def bit_clear_signal
          less_Suc_eq)
  next
    case False
    have "emit_loop i self = self" by (subst emit_loop.simps) (simp only: False if_False)
    then show ?thesis using False by (auto simp: not_less)
  qed
qed

subsection \<open>What the leaf operations leave alone\<close>

lemma g_strcmp0_iff [simp]: "(g_strcmp0 a b \<noteq> 0) = (a \<noteq> b)" "(g_strcmp0 a b = 0) = (a = b)"
  by (simp_all add: g_strcmp0_def)

lemma strcmp_iff [simp]: "(strcmp a b \<noteq> 0) = (a \<noteq> b)" "(strcmp a b = 0) = (a = b)"
  by (simp_all add: strcmp_def)

lemma nonempty_simps [simp]:
  "nonempty None = False" "nonempty (Some v) = (v \<noteq> [])"
  by (simp_all add: nonempty_def)

lemma signal_queue_fields [simp]:
  "netreg (sim_info_signal_queue s g) = netreg s"
  "iccid (sim_info_signal_queue s g) = iccid s"
  "imsi (sim_info_signal_queue s g) = imsi s"
  "cached_spn (sim_info_signal_queue s g) = cached_spn s"
  "sim_spn (sim_info_signal_queue s g) = sim_spn s"
  "public_spn (sim_info_signal_queue s g) = public_spn s"
  "default_spn (sim_info_signal_queue s g) = default_spn s"
  "update_imsi_cache (sim_info_signal_queue s g) = update_imsi_cache s"
  "update_iccid_map (sim_info_signal_queue s g) = update_iccid_map s"
  "store_cache (sim_info_signal_queue s g) = store_cache s"
  "store_iccidmap (sim_info_signal_queue s g) = store_iccidmap s"
  "writes (sim_info_signal_queue s g) = writes s"
  "emitted (sim_info_signal_queue s g) = emitted s"
  "queued_signals (sim_info_signal_queue s g) = queued_signals s OR sim_info_signal_bit g"
  by (simp_all add: sim_info_signal_queue_def)

lemma update_imsi_cache_fields [simp]:
  "netreg (sim_info_update_imsi_cache s) = netreg s"
  "iccid (sim_info_update_imsi_cache s) = iccid s"
  "imsi (sim_info_update_imsi_cache s) = imsi s"
  "cached_spn (sim_info_update_imsi_cache s) = cached_spn s"
  "sim_spn (sim_info_update_imsi_cache s) = sim_spn s"
  "public_spn (sim_info_update_imsi_cache s) = public_spn s"
  "default_spn (sim_info_update_imsi_cache s) = default_spn s"
  "update_iccid_map (sim_info_update_imsi_cache s) = update_iccid_map s"
  "store_iccidmap (sim_info_update_imsi_cache s) = store_iccidmap s"
  "queued_signals (sim_info_update_imsi_cache s) = queued_signals s"
  "emitted (sim_info_update_imsi_cache s) = emitted s"
  by (simp_all add: sim_info_update_imsi_cache_def Let_def split: option.splits)

lemma update_iccid_map_fields [simp]:
  "netreg (sim_info_update_iccid_map s) = netreg s"
  "iccid (sim_info_update_iccid_map s) = iccid s"
  "imsi (sim_info_update_iccid_map s) = imsi s"
  "cached_spn (sim_info_update_iccid_map s) = cached_spn s"
  "sim_spn (sim_info_update_iccid_map s) = sim_spn s"
  "public_spn (sim_info_update_iccid_map s) = public_spn s"
  "default_spn (sim_info_update_iccid_map s) = default_spn s"
  "update_imsi_cache (sim_info_update_iccid_map s) = update_imsi_cache s"
  "store_cache (sim_info_update_iccid_map s) = store_cache s"
  "queued_signals (sim_info_update_iccid_map s) = queued_signals s"
  "emitted (sim_info_update_iccid_map s) = emitted s"
  by (simp_all add: sim_info_update_iccid_map_def Let_def split: option.splits)

lemma update_public_spn_fields [simp]:
  "netreg (sim_info_update_public_spn s) = netreg s"
  "iccid (sim_info_update_public_spn s) = iccid s"
  "imsi (sim_info_update_public_spn s) = imsi s"
  "cached_spn (sim_info_update_public_spn s) = cached_spn s"
  "sim_spn (sim_info_update_public_spn s) = sim_spn s"
  "default_spn (sim_info_update_public_spn s) = default_spn s"
  "update_imsi_cache (sim_info_update_public_spn s) = update_imsi_cache s"
  "update_iccid_map (sim_info_update_public_spn s) = update_iccid_map s"
  "store_cache (sim_info_update_public_spn s) = store_cache s"
  "store_iccidmap (sim_info_update_public_spn s) = store_iccidmap s"
  "writes (sim_info_update_public_spn s) = writes s"
  "emitted (sim_info_update_public_spn s) = emitted s"
  by (simp_all add: sim_info_update_public_spn_def Let_def)

lemma emit_queued_signals_fields [simp]:
  "netreg (sim_info_emit_queued_signals s) = netreg s"
  "iccid (sim_info_emit_queued_signals s) = iccid s"
  "imsi (sim_info_emit_queued_signals s) = imsi s"
  "cached_spn (sim_info_emit_queued_signals s) = cached_spn s"
  "sim_spn (sim_info_emit_queued_signals s) = sim_spn s"
  "public_spn (sim_info_emit_queued_signals s) = public_spn s"
  "default_spn (sim_info_emit_queued_signals s) = default_spn s"
  "update_imsi_cache (sim_info_emit_queued_signals s) = update_imsi_cache s"
  "update_iccid_map (sim_info_emit_queued_signals s) = update_iccid_map s"
  "store_cache (sim_info_emit_queued_signals s) = store_cache s"
  "store_iccidmap (sim_info_emit_queued_signals s) = store_iccidmap s"
  "writes (sim_info_emit_queued_signals s) = writes s"
proof -
  obtain q e where "emit_loop 0 s = s\<lparr>queued_signals := q, emitted := e\<rparr>"
    using emit_loop_frame by blast
  then have eq: "sim_info_emit_queued_signals s = s\<lparr>queued_signals := q, emitted := e\<rparr>"
    by (simp add: sim_info_emit_queued_signals_def)
  show
    "netreg (sim_info_emit_queued_signals s) = netreg s"
    "iccid (sim_info_emit_queued_signals s) = iccid s"
    "imsi (sim_info_emit_queued_signals s) = imsi s"
    "cached_spn (sim_info_emit_queued_signals s) = cached_spn s"
    "sim_spn (sim_info_emit_queued_signals s) = sim_spn s"
    "public_spn (sim_info_emit_queued_signals s) = public_spn s"
    "default_spn (sim_info_emit_queued_signals s) = default_spn s"
    "update_imsi_cache (sim_info_emit_queued_signals s) = update_imsi_cache s"
    "update_iccid_map (sim_info_emit_queued_signals s) = update_iccid_map s"
    "store_cache (sim_info_emit_queued_signals s) = store_cache s"
    "store_iccidmap (sim_info_emit_queued_signals s) = store_iccidmap s"
    "writes (sim_info_emit_queued_signals s) = writes s"
    unfolding eq by simp_all
qed

subsection \<open>Signal bits\<close>

lemma signals_low_iff: "signals_low q = (\<forall>j. bit q j \<longrightarrow> j < SIGNAL_COUNT)"
proof
  assume low: "signals_low q"
  show "\<forall>j. bit q j \<longrightarrow> j < SIGNAL_COUNT"
  proof (intro allI impI, rule ccontr)
    fix j assume j: "bit q j" "\<not> j < SIGNAL_COUNT"
    then have "bit (drop_bit SIGNAL_COUNT q) (j - SIGNAL_COUNT)"
      by (simp add: bit_drop_bit_eq)
    with low show False by (simp add: signals_low_def)
  qed
next
  assume "\<forall>j. bit q j \<longrightarrow> j < SIGNAL_COUNT"
  then have "drop_bit SIGNAL_COUNT q = 0"
    by (intro bit_eqI) (auto simp: bit_drop_bit_eq)
  then show "signals_low q" by (simp add: signals_low_def)
qed

lemma signals_low_0 [simp]: "signals_low 0"
  by (simp add: signals_low_def)

lemma signals_low_queue:
  "signals_low q \<Longrightarrow> g < SIGNAL_COUNT \<Longrightarrow> signals_low (q OR sim_info_signal_bit g)"
  by (auto simp: signals_low_iff bit_set_signal)

lemma emit_queued_signals_clears:
  "signals_low (queued_signals s) \<Longrightarrow> queued_signals (sim_info_emit_queued_signals s) = 0"
  by (rule bit_eqI) (auto simp: sim_info_emit_queued_signals_def emit_loop_bits signals_low_iff)

subsection \<open>The emission log is written by the flush only\<close>

lemma set_cached_spn_emitted [simp]: "emitted (sim_info_set_cached_spn s v) = emitted s"
  by (simp add: sim_info_set_cached_spn_def)

lemma set_spn_emitted [simp]: "emitted (sim_info_set_spn s v) = emitted s"
  by (simp add: sim_info_set_spn_def)

lemma update_spn_emitted [simp]: "emitted (sim_info_update_spn w s) = emitted s"
  by (simp add: sim_info_update_spn_def split: option.splits)

lemma update_default_spn_emitted [simp]: "emitted (sim_info_update_default_spn w s) = emitted s"
  by (simp add: sim_info_update_default_spn_def Let_def)

lemma update_imsi_emitted [simp]: "emitted (sim_info_update_imsi w s) = emitted s"
  by (simp add: sim_info_update_imsi_def Let_def)

lemma network_check_emitted [simp]: "emitted (sim_info_network_check w s) = emitted s"
  by (simp add: sim_info_network_check_def Let_def split: option.splits)

lemma load_cache_imsi_emitted [simp]: "emitted (load_cache_imsi w s) = emitted s"
  by (simp add: load_cache_imsi_def Let_def split: option.splits)

lemma load_cache_spn_emitted [simp]: "emitted (load_cache_spn s) = emitted s"
  by (simp add: load_cache_spn_def Let_def split: option.splits)

lemma load_cache_emitted [simp]: "emitted (sim_info_load_cache w s) = emitted s"
  by (simp add: sim_info_load_cache_def)

lemma set_iccid_emitted [simp]: "emitted (sim_info_set_iccid w s c) = emitted s"
  by (simp add: sim_info_set_iccid_def Let_def)

lemma set_netreg_emitted [simp]: "emitted (sim_info_set_netreg w s p) = emitted s"
  by (simp add: sim_info_set_netreg_def)

subsection \<open>Only the three signal bits are ever queued\<close>

lemma signal_ids_low [simp]:
  "SIGNAL_ICCID_CHANGED < SIGNAL_COUNT" "SIGNAL_IMSI_CHANGED < SIGNAL_COUNT"
  "SIGNAL_SPN_CHANGED < SIGNAL_COUNT"
  by (simp_all add: SIGNAL_ICCID_CHANGED_def SIGNAL_IMSI_CHANGED_def SIGNAL_SPN_CHANGED_def
      SIGNAL_COUNT_def)

lemma update_public_spn_low [simp]:
  "signals_low (queued_signals s) \<Longrightarrow> signals_low (queued_signals (sim_info_update_public_spn s))"
  by (simp add: sim_info_update_public_spn_def Let_def signals_low_queue)

lemma set_cached_spn_low [simp]:
  "signals_low (queued_signals s) \<Longrightarrow> signals_low (queued_signals (sim_info_set_cached_spn s v))"
  by (simp add: sim_info_set_cached_spn_def)

lemma set_spn_low [simp]:
  "signals_low (queued_signals s) \<Longrightarrow> signals_low (queued_signals (sim_info_set_spn s v))"
  by (simp add: sim_info_set_spn_def)

lemma update_spn_low [simp]:
  "signals_low (queued_signals s) \<Longrightarrow> signals_low (queued_signals (sim_info_update_spn w s))"
  by (simp add: sim_info_update_spn_def split: option.splits)

lemma update_default_spn_low [simp]:
  "signals_low (queued_signals s) \<Longrightarrow>
   signals_low (queued_signals (sim_info_update_default_spn w s))"
  by (simp add: sim_info_update_default_spn_def Let_def)

lemma update_imsi_low [simp]:
  "signals_low (queued_signals s) \<Longrightarrow> signals_low (queued_signals (sim_info_update_imsi w s))"
  by (simp add: sim_info_update_imsi_def Let_def signals_low_queue)

lemma network_check_low [simp]:
  "signals_low (queued_signals s) \<Longrightarrow> signals_low (queued_signals (sim_info_network_check w s))"
  by (simp add: sim_info_network_check_def Let_def split: option.splits)

lemma load_cache_imsi_low [simp]:
  "signals_low (queued_signals s) \<Longrightarrow> signals_low (queued_signals (load_cache_imsi w s))"
  by (simp add: load_cache_imsi_def Let_def signals_low_queue split: option.splits)

lemma load_cache_spn_low [simp]:
  "signals_low (queued_signals s) \<Longrightarrow> signals_low (queued_signals (load_cache_spn s))"
  by (simp add: load_cache_spn_def Let_def split: option.splits)

lemma load_cache_low [simp]:
  "signals_low (queued_signals s) \<Longrightarrow> signals_low (queued_signals (sim_info_load_cache w s))"
  by (simp add: sim_info_load_cache_def)

lemma set_iccid_low [simp]:
  "signals_low (queued_signals s) \<Longrightarrow> signals_low (queued_signals (sim_info_set_iccid w s c))"
  by (simp add: sim_info_set_iccid_def Let_def signals_low_queue)

lemma set_netreg_low [simp]:
  "signals_low (queued_signals s) \<Longrightarrow> signals_low (queued_signals (sim_info_set_netreg w s p))"
  by (simp add: sim_info_set_netreg_def)

subsection \<open>Every commit changes the entry it writes\<close>

lemma writes_minimal_append [simp]:
  "writes_minimal (ws @ [w]) = (writes_minimal ws \<and> write_changes w)"
  by (simp add: writes_minimal_def)

lemma update_imsi_cache_minimal [simp]:
  "writes_minimal (writes s) \<Longrightarrow> writes_minimal (writes (sim_info_update_imsi_cache s))"
  by (auto simp: sim_info_update_imsi_cache_def Let_def split: option.splits)

lemma update_iccid_map_minimal [simp]:
  "writes_minimal (writes s) \<Longrightarrow> writes_minimal (writes (sim_info_update_iccid_map s))"
  by (auto simp: sim_info_update_iccid_map_def Let_def split: option.splits)

lemma set_cached_spn_minimal [simp]:
  "writes_minimal (writes s) \<Longrightarrow> writes_minimal (writes (sim_info_set_cached_spn s v))"
  by (simp add: sim_info_set_cached_spn_def)

lemma set_spn_minimal [simp]:
  "writes_minimal (writes s) \<Longrightarrow> writes_minimal (writes (sim_info_set_spn s v))"
  by (simp add: sim_info_set_spn_def)

lemma update_spn_minimal [simp]:
  "writes_minimal (writes s) \<Longrightarrow> writes_minimal (writes (sim_info_update_spn w s))"
  by (simp add: sim_info_update_spn_def split: option.splits)

lemma update_default_spn_writes [simp]:
  "writes (sim_info_update_default_spn w s) = writes s"
  by (simp add: sim_info_update_default_spn_def Let_def)

lemma update_imsi_minimal [simp]:
  "writes_minimal (writes s) \<Longrightarrow> writes_minimal (writes (sim_info_update_imsi w s))"
  by (simp add: sim_info_update_imsi_def Let_def)

lemma network_check_minimal [simp]:
  "writes_minimal (writes s) \<Longrightarrow> writes_minimal (writes (sim_info_network_check w s))"
  by (simp add: sim_info_network_check_def Let_def split: option.splits)

lemma load_cache_imsi_minimal [simp]:
  "writes_minimal (writes s) \<Longrightarrow> writes_minimal (writes (load_cache_imsi w s))"
  by (simp add: load_cache_imsi_def Let_def split: option.splits)

lemma load_cache_spn_minimal [simp]:
  "writes_minimal (writes s) \<Longrightarrow> writes_minimal (writes (load_cache_spn s))"
  by (simp add: load_cache_spn_def Let_def split: option.splits)

lemma load_cache_minimal [simp]:
  "writes_minimal (writes s) \<Longrightarrow> writes_minimal (writes (sim_info_load_cache w s))"
  by (simp add: sim_info_load_cache_def)

lemma set_iccid_minimal [simp]:
  "writes_minimal (writes s) \<Longrightarrow> writes_minimal (writes (sim_info_set_iccid w s c))"
  by (simp add: sim_info_set_iccid_def Let_def)

lemma set_netreg_minimal [simp]:
  "writes_minimal (writes s) \<Longrightarrow> writes_minimal (writes (sim_info_set_netreg w s p))"
  by (simp add: sim_info_set_netreg_def)

subsection \<open>No SPN field holds the empty string\<close>

lemma spn_wf_leaf [simp]:
  "spn_wf (sim_info_signal_queue s g) = spn_wf s"
  "spn_wf (sim_info_update_imsi_cache s) = spn_wf s"
  "spn_wf (sim_info_update_iccid_map s) = spn_wf s"
  "spn_wf (sim_info_emit_queued_signals s) = spn_wf s"
  by (simp_all add: spn_wf_def)

lemma update_public_spn_wf [simp]:
  "spn_wf s \<Longrightarrow> spn_wf (sim_info_update_public_spn s)"
  by (auto simp: spn_wf_def sim_info_update_public_spn_def Let_def)

lemma update_public_spn_ok:
  "spn_wf s \<Longrightarrow> public_ok (sim_info_update_public_spn s)"
  by (auto simp: spn_wf_def public_ok_def spec_public_spn_def sim_info_update_public_spn_def
      Let_def split: option.splits)

lemma public_ok_leaf [simp]:
  "public_ok (sim_info_signal_queue s g) = public_ok s"
  "public_ok (sim_info_update_imsi_cache s) = public_ok s"
  "public_ok (sim_info_update_iccid_map s) = public_ok s"
  "public_ok (sim_info_emit_queued_signals s) = public_ok s"
  by (simp_all add: public_ok_def)

lemma spn_wf_updates [simp]:
  "spn_wf (s\<lparr>update_imsi_cache := b\<rparr>) = spn_wf s"
  "spn_wf (s\<lparr>update_iccid_map := b\<rparr>) = spn_wf s"
  "spn_wf (s\<lparr>imsi := i\<rparr>) = spn_wf s"
  "spn_wf (s\<lparr>iccid := c\<rparr>) = spn_wf s"
  "spn_wf (s\<lparr>netreg := p\<rparr>) = spn_wf s"
  "spn_wf (s\<lparr>default_spn := d\<rparr>) = spn_wf s"
  "spn_wf (s\<lparr>queued_signals := q\<rparr>) = spn_wf s"
  "spn_wf (s\<lparr>store_cache := sc\<rparr>) = spn_wf s"
  "spn_wf (s\<lparr>store_iccidmap := sm\<rparr>) = spn_wf s"
  by (simp_all add: spn_wf_def)

lemma public_ok_updates [simp]:
  "public_ok (s\<lparr>update_imsi_cache := b\<rparr>) = public_ok s"
  "public_ok (s\<lparr>update_iccid_map := b\<rparr>) = public_ok s"
  "public_ok (s\<lparr>imsi := i\<rparr>) = public_ok s"
  "public_ok (s\<lparr>iccid := c\<rparr>) = public_ok s"
  "public_ok (s\<lparr>netreg := p\<rparr>) = public_ok s"
  "public_ok (s\<lparr>queued_signals := q\<rparr>) = public_ok s"
  "public_ok (s\<lparr>store_cache := sc\<rparr>) = public_ok s"
  "public_ok (s\<lparr>store_iccidmap := sm\<rparr>) = public_ok s"
  by (simp_all add: public_ok_def)

lemma nonempty_not_empty: "nonempty c \<Longrightarrow> c \<noteq> Some []"
  by (auto simp: nonempty_def)

lemma spn_wf_cached [simp]:
  "spn_wf s \<Longrightarrow> c \<noteq> Some [] \<Longrightarrow> spn_wf (s\<lparr>cached_spn := c\<rparr>)"
  by (simp add: spn_wf_def)

lemma spn_wf_sim [simp]:
  "spn_wf s \<Longrightarrow> c \<noteq> Some [] \<Longrightarrow> spn_wf (s\<lparr>sim_spn := c\<rparr>)"
  by (simp add: spn_wf_def)

lemma set_cached_spn_wf [simp]:
  "spn_wf s \<Longrightarrow> v \<noteq> [] \<Longrightarrow> spn_wf (sim_info_set_cached_spn s v)"
  by (simp add: sim_info_set_cached_spn_def)

lemma set_cached_spn_ok:
  "spn_wf s \<Longrightarrow> v \<noteq> [] \<Longrightarrow> public_ok s \<Longrightarrow> public_ok (sim_info_set_cached_spn s v)"
  by (simp add: sim_info_set_cached_spn_def update_public_spn_ok)

lemma set_spn_wf [simp]:
  "spn_wf s \<Longrightarrow> v \<noteq> [] \<Longrightarrow> spn_wf (sim_info_set_spn s v)"
  by (simp add: sim_info_set_spn_def)

lemma set_spn_ok:
  "spn_wf s \<Longrightarrow> v \<noteq> [] \<Longrightarrow> public_ok s \<Longrightarrow> public_ok (sim_info_set_spn s v)"
  by (simp add: sim_info_set_spn_def update_public_spn_ok)

lemma update_spn_wf [simp]: "spn_wf s \<Longrightarrow> spn_wf (sim_info_update_spn w s)"
  by (simp add: sim_info_update_spn_def split: option.splits)

lemma update_spn_ok: "spn_wf s \<Longrightarrow> public_ok s \<Longrightarrow> public_ok (sim_info_update_spn w s)"
  by (simp add: sim_info_update_spn_def set_spn_ok split: option.splits)

lemma update_default_spn_wf [simp]: "spn_wf s \<Longrightarrow> spn_wf (sim_info_update_default_spn w s)"
  by (simp add: sim_info_update_default_spn_def Let_def)

lemma update_default_spn_ok:
  "spn_wf s \<Longrightarrow> public_ok s \<Longrightarrow> public_ok (sim_info_update_default_spn w s)"
  by (simp add: sim_info_update_default_spn_def Let_def update_public_spn_ok)

lemma update_imsi_wf [simp]: "spn_wf s \<Longrightarrow> spn_wf (sim_info_update_imsi w s)"
  by (simp add: sim_info_update_imsi_def Let_def)

lemma update_imsi_ok:
  "spn_wf s \<Longrightarrow> public_ok s \<Longrightarrow> public_ok (sim_info_update_imsi w s)"
  by (simp add: sim_info_update_imsi_def Let_def update_default_spn_ok)

lemma network_check_wf [simp]: "spn_wf s \<Longrightarrow> spn_wf (sim_info_network_check w s)"
  by (simp add: sim_info_network_check_def Let_def split: option.splits)

lemma network_check_ok:
  "spn_wf s \<Longrightarrow> public_ok s \<Longrightarrow> public_ok (sim_info_network_check w s)"
  by (simp add: sim_info_network_check_def Let_def set_cached_spn_ok split: option.splits)

lemma load_cache_imsi_wf [simp]: "spn_wf s \<Longrightarrow> spn_wf (load_cache_imsi w s)"
  by (simp add: load_cache_imsi_def Let_def split: option.splits)

lemma load_cache_imsi_ok:
  "spn_wf s \<Longrightarrow> public_ok s \<Longrightarrow> public_ok (load_cache_imsi w s)"
  by (simp add: load_cache_imsi_def Let_def update_default_spn_ok split: option.splits)

lemma load_cache_spn_wf [simp]: "spn_wf s \<Longrightarrow> spn_wf (load_cache_spn s)"
  by (simp add: load_cache_spn_def Let_def nonempty_not_empty split: option.splits)

lemma load_cache_spn_ok:
  "spn_wf s \<Longrightarrow> public_ok s \<Longrightarrow> public_ok (load_cache_spn s)"
  by (simp add: load_cache_spn_def Let_def nonempty_not_empty update_public_spn_ok
      split: option.splits)

lemma load_cache_wf [simp]: "spn_wf s \<Longrightarrow> spn_wf (sim_info_load_cache w s)"
  by (simp add: sim_info_load_cache_def)

lemma load_cache_ok:
  "spn_wf s \<Longrightarrow> public_ok s \<Longrightarrow> public_ok (sim_info_load_cache w s)"
  by (simp add: sim_info_load_cache_def load_cache_spn_ok load_cache_imsi_ok)

lemma set_iccid_wf [simp]: "spn_wf s \<Longrightarrow> spn_wf (sim_info_set_iccid w s c)"
  by (simp add: sim_info_set_iccid_def Let_def)

lemma set_iccid_ok:
  "spn_wf s \<Longrightarrow> public_ok s \<Longrightarrow> public_ok (sim_info_set_iccid w s c)"
  by (simp add: sim_info_set_iccid_def Let_def update_public_spn_ok load_cache_ok)

lemma set_netreg_wf [simp]: "spn_wf s \<Longrightarrow> spn_wf (sim_info_set_netreg w s p)"
  by (simp add: sim_info_set_netreg_def)

lemma set_netreg_ok:
  "spn_wf s \<Longrightarrow> public_ok s \<Longrightarrow> public_ok (sim_info_set_netreg w s p)"
  by (simp add: sim_info_set_netreg_def network_check_ok)

subsection \<open>Invariants of the reachable states\<close>

lemma init_inv:
  "spn_wf (sim_info_init c m)" "public_ok (sim_info_init c m)"
  "writes_minimal (writes (sim_info_init c m))"
  "signals_low (queued_signals (sim_info_init c m))"
  "emitted (sim_info_init c m) = []"
  by (simp_all add: sim_info_init_def spn_wf_def public_ok_def spec_public_spn_def
      writes_minimal_def)

lemma hydrate_inv:
  assumes "spn_wf s" "public_ok s" "writes_minimal (writes s)"
  shows "spn_wf (sim_info_new_hydrate w s)" "public_ok (sim_info_new_hydrate w s)"
    "writes_minimal (writes (sim_info_new_hydrate w s))"
    "emitted (sim_info_new_hydrate w s) = emitted s"
  using assms
  by (simp_all add: sim_info_new_hydrate_def network_check_ok update_spn_ok update_imsi_ok
      set_netreg_ok set_iccid_ok)

lemma reachable_inv: "reachable s \<Longrightarrow> tracker_inv s"
proof (induction rule: reachable.induct)
  case (reach_new path watch cache iccidmap self)
  then have "self = (sim_info_new_hydrate watch (sim_info_init cache iccidmap))
                      \<lparr>queued_signals := 0\<rparr>"
    by (auto simp: sim_info_new_def split: if_splits)
  then show ?case
    by (simp add: tracker_inv_def hydrate_inv init_inv)
next
  case (reach_iccid self watch)
  then show ?case
    by (simp add: tracker_inv_def sim_info_iccid_watch_cb_def set_iccid_ok
        emit_queued_signals_clears)
next
  case (reach_imsi self watch)
  then show ?case
    by (simp add: tracker_inv_def sim_info_imsi_watch_cb_def update_imsi_ok
        emit_queued_signals_clears)
next
  case (reach_spn self watch)
  then show ?case
    by (simp add: tracker_inv_def sim_info_spn_watch_cb_def update_spn_ok
        emit_queued_signals_clears)
next
  case (reach_netreg_watch self watch)
  then show ?case
    by (simp add: tracker_inv_def sim_info_netreg_watch_def network_check_ok
        emit_queued_signals_clears)
next
  case (reach_netreg_changed self watch)
  then show ?case
    by (simp add: tracker_inv_def sim_info_netreg_changed_def set_netreg_ok
        emit_queued_signals_clears)
next
  case (reach_store self cache iccidmap)
  then show ?case
    by (simp add: tracker_inv_def)
qed

lemma ex_tracker_reachable: "reachable ex_tracker"
  by (rule reach_new [of "Some ''/ril_0''" ex_watch no_entries no_entries])
     (simp add: sim_info_new_def ex_tracker_def)

text \<open>
  C1: in every reachable tracker state the public SPN is the SIM's SPN if that is
  non-empty, else the cached SPN if that is non-empty, else the default SPN if that is
  non-empty, and absent otherwise. The source tests the SIM's and the cached SPN for
  NULL, not for emptiness; the two tests agree because no reachable state holds an empty
  string in either field, which the theorem states as well.
\<close>

theorem public_spn_precedence:
  "reachable s \<Longrightarrow>
   public_spn s = spec_public_spn (sim_spn s) (cached_spn s) (default_spn s) \<and>
   sim_spn s \<noteq> Some [] \<and> cached_spn s \<noteq> Some []"
  using reachable_inv [of s] by (simp add: tracker_inv_def public_ok_def spn_wf_def)

lemma ex_tracker_fields:
  "sim_spn ex_tracker = Some ''RealSPN''"
  "cached_spn ex_tracker = Some ''RealSPN''"
  "default_spn ex_tracker = ''24491''"
  "imsi ex_tracker = Some ''244910000000001''"
  "iccid ex_tracker = Some ''8901''"
  by (simp_all add: ex_tracker_def sim_info_new_hydrate_def sim_info_init_def ex_watch_def
      home_sim_def sim_info_set_iccid_def sim_info_set_netreg_def sim_info_update_imsi_def
      sim_info_update_spn_def sim_info_network_check_def sim_info_load_cache_def
      load_cache_imsi_def load_cache_spn_def no_entries_def Let_def
      sim_info_set_spn_def sim_info_set_cached_spn_def sim_info_update_default_spn_def
      default_spn_buf_def DEFAULT_SPN_BUFSIZE_def)

theorem public_spn_precedence_witness:
  "reachable ex_tracker \<and> sim_spn ex_tracker = Some ''RealSPN'' \<and>
   public_spn ex_tracker = Some ''RealSPN''"
  using public_spn_precedence [OF ex_tracker_reachable]
  by (simp add: ex_tracker_reachable ex_tracker_fields spec_public_spn_def)

subsection \<open>One flush\<close>

lemma flushed_fst:
  "map fst (flushed s) = filter (bit (queued_signals s)) [0..<SIGNAL_COUNT]"
proof -
  have "map fst (flushed s) =
        drop (length (map fst (emitted s))) (map fst (emitted (emit_loop 0 s)))"
    by (simp add: flushed_def sim_info_emit_queued_signals_def drop_map)
  also have "\<dots> = filter (bit (queued_signals s)) [0..<SIGNAL_COUNT]"
    unfolding emit_loop_fst by simp
  finally show ?thesis .
qed

lemma flushed_snapshot: "list_all (\<lambda>(j, p). \<not> bit p j) (flushed s)"
proof -
  obtain es where "emitted (emit_loop 0 s) = emitted s @ es" "\<forall>(j, p) \<in> set es. \<not> bit p j"
    using emit_loop_snapshot by blast
  then show ?thesis
    by (simp add: flushed_def sim_info_emit_queued_signals_def list_all_iff)
qed

lemma signal_ids_upt:
  "[0..<SIGNAL_COUNT] = [SIGNAL_ICCID_CHANGED, SIGNAL_IMSI_CHANGED, SIGNAL_SPN_CHANGED]"
  by (simp add: SIGNAL_COUNT_def SIGNAL_ICCID_CHANGED_def SIGNAL_IMSI_CHANGED_def
      SIGNAL_SPN_CHANGED_def upt_rec)

lemma queue_times_bit:
  "bit (queued_signals (queue_times n g s)) j =
     (bit (queued_signals s) j \<or> (0 < n \<and> j = g \<and> g < 32))"
  by (induction n) (auto simp: queue_times_def bit_set_signal)

lemma bit_signal_bit: "bit (sim_info_signal_bit i) j = (j = i \<and> i < 32)"
  using bit_set_signal [of 0 i j] by simp

lemma count_list_filter:
  "count_list (filter P xs) x = (if P x then count_list xs x else 0)"
  by (induction xs) auto

lemma count_list_upt: "count_list [i..<n] (x::nat) = (if i \<le> x \<and> x < n then 1 else 0)"
  by (induction n) auto

text \<open>
  C5: one flush emits exactly the pending kinds among ICCID, IMSI and SPN, in that order
  and each once; at the moment a kind is emitted its bit is already cleared; and a kind
  queued any positive number of times is emitted exactly once.
\<close>

theorem flush_emits_once_in_order:
  "map fst (flushed s) =
     filter (bit (queued_signals s))
       [SIGNAL_ICCID_CHANGED, SIGNAL_IMSI_CHANGED, SIGNAL_SPN_CHANGED] \<and>
   sorted_wrt (<) (map fst (flushed s)) \<and>
   list_all (\<lambda>(sig, pending). \<not> bit pending sig) (flushed s) \<and>
   (sig < SIGNAL_COUNT \<and> 0 < n \<longrightarrow>
      count_list (map fst (flushed (queue_times n sig s))) sig = 1)"
proof (intro conjI impI)
  show "map fst (flushed s) =
     filter (bit (queued_signals s))
       [SIGNAL_ICCID_CHANGED, SIGNAL_IMSI_CHANGED, SIGNAL_SPN_CHANGED]"
    by (simp only: flushed_fst signal_ids_upt)
  show "sorted_wrt (<) (map fst (flushed s))"
    unfolding flushed_fst by (rule sorted_wrt_filter) simp
  show "list_all (\<lambda>(sig, pending). \<not> bit pending sig) (flushed s)"
    by (rule flushed_snapshot)
next
  assume a: "sig < SIGNAL_COUNT \<and> 0 < n"
  then have "sig < 32" by (simp add: SIGNAL_COUNT_def)
  with a show "count_list (map fst (flushed (queue_times n sig s))) sig = 1"
    by (simp add: flushed_fst count_list_filter count_list_upt queue_times_bit)
qed

theorem flush_emits_once_in_order_witness:
  "SIGNAL_SPN_CHANGED < SIGNAL_COUNT \<and> (0::nat) < 3 \<and>
   count_list (map fst (flushed (queue_times 3 SIGNAL_SPN_CHANGED tracker0)))
     SIGNAL_SPN_CHANGED = 1 \<and>
   map fst (flushed (sim_info_signal_queue
                       (sim_info_signal_queue tracker0 SIGNAL_SPN_CHANGED)
                       SIGNAL_ICCID_CHANGED)) =
     [SIGNAL_ICCID_CHANGED, SIGNAL_SPN_CHANGED]"
proof -
  have h: "SIGNAL_SPN_CHANGED < SIGNAL_COUNT \<and> (0::nat) < 3" by simp
  have q: "queued_signals tracker0 = 0"
    by (simp add: tracker0_def sim_info_init_def)
  show ?thesis
    using h flush_emits_once_in_order [of tracker0 SIGNAL_SPN_CHANGED 3]
      flush_emits_once_in_order [of "sim_info_signal_queue
                       (sim_info_signal_queue tracker0 SIGNAL_SPN_CHANGED)
                       SIGNAL_ICCID_CHANGED" 0 0]
    by (simp add: q bit_set_signal bit_signal_bit SIGNAL_SPN_CHANGED_def SIGNAL_ICCID_CHANGED_def
        SIGNAL_IMSI_CHANGED_def)
qed

subsection \<open>Setters called with the value already held\<close>

text \<open>
  C8: each of the three setters, called with the value the tracker already holds, returns
  the state it was given: no field, flag, queued signal, emission, stored entry or commit
  differs.
\<close>

theorem setters_idempotent:
  "sim_info_set_iccid watch s (iccid s) = s \<and>
   (sim_spn s = Some v \<longrightarrow> sim_info_set_spn s v = s) \<and>
   (cached_spn s = Some v \<longrightarrow> sim_info_set_cached_spn s v = s)"
  by (simp add: sim_info_set_iccid_def sim_info_set_spn_def sim_info_set_cached_spn_def)

theorem setters_idempotent_witness:
  "sim_spn ex_tracker = Some ''RealSPN'' \<and> cached_spn ex_tracker = Some ''RealSPN'' \<and>
   sim_info_set_iccid ex_watch ex_tracker (Some ''8901'') = ex_tracker \<and>
   sim_info_set_spn ex_tracker ''RealSPN'' = ex_tracker \<and>
   sim_info_set_cached_spn ex_tracker ''RealSPN'' = ex_tracker"
  using setters_idempotent [of ex_watch ex_tracker "''RealSPN''"]
  by (simp add: ex_tracker_fields)

subsection \<open>IMSI updates\<close>

lemma update_default_spn_fields [simp]:
  "netreg (sim_info_update_default_spn w s) = netreg s"
  "iccid (sim_info_update_default_spn w s) = iccid s"
  "imsi (sim_info_update_default_spn w s) = imsi s"
  "cached_spn (sim_info_update_default_spn w s) = cached_spn s"
  "sim_spn (sim_info_update_default_spn w s) = sim_spn s"
  "update_imsi_cache (sim_info_update_default_spn w s) = update_imsi_cache s"
  "update_iccid_map (sim_info_update_default_spn w s) = update_iccid_map s"
  "store_cache (sim_info_update_default_spn w s) = store_cache s"
  "store_iccidmap (sim_info_update_default_spn w s) = store_iccidmap s"
  "default_spn (sim_info_update_default_spn w s) = default_spn_buf w"
  by (simp_all add: sim_info_update_default_spn_def Let_def)

text \<open>
  C9: an IMSI event whose upstream value is NULL or empty leaves the tracked IMSI as it
  is, no IMSI event clears a tracked IMSI, and after every IMSI event the default SPN is
  the one derived from the SIM at that moment.
\<close>

theorem imsi_update_sticky:
  "((watch_imsi watch = None \<or> watch_imsi watch = Some []) \<longrightarrow>
      imsi (sim_info_imsi_watch_cb watch s) = imsi s) \<and>
   (imsi s \<noteq> None \<longrightarrow> imsi (sim_info_imsi_watch_cb watch s) \<noteq> None) \<and>
   default_spn (sim_info_imsi_watch_cb watch s) = default_spn_buf watch \<and>
   default_spn (sim_info_update_imsi watch s) = default_spn_buf watch"
  by (auto simp: sim_info_imsi_watch_cb_def sim_info_update_imsi_def Let_def nonempty_def
      split: option.splits)

theorem imsi_update_sticky_witness:
  "watch_imsi (ex_watch\<lparr>watch_imsi := None\<rparr>) = None \<and>
   imsi ex_tracker \<noteq> None \<and>
   imsi (sim_info_imsi_watch_cb (ex_watch\<lparr>watch_imsi := None\<rparr>) ex_tracker) =
     Some ''244910000000001'' \<and>
   default_spn (sim_info_imsi_watch_cb (ex_watch\<lparr>watch_imsi := None\<rparr>) ex_tracker) =
     ''24491''"
  using imsi_update_sticky [of "ex_watch\<lparr>watch_imsi := None\<rparr>" ex_tracker]
  by (simp add: ex_tracker_fields default_spn_buf_def ex_watch_def home_sim_def
      DEFAULT_SPN_BUFSIZE_def)

subsection \<open>Construction\<close>

text \<open>
  C10: the tracker the constructor returns has emitted nothing and has no signal queued,
  so a flush right after construction emits nothing either, although hydration can have
  queued signals before the final clearing.
\<close>

theorem construction_is_silent:
  "(sim_info_new path watch cache iccidmap = Some s \<longrightarrow>
      emitted s = [] \<and> queued_signals s = 0 \<and> flushed s = []) \<and>
   queued_signals (sim_info_new_hydrate ex_watch tracker0) \<noteq> 0"
proof (intro conjI impI)
  assume "sim_info_new path watch cache iccidmap = Some s"
  then have s: "s = (sim_info_new_hydrate watch (sim_info_init cache iccidmap))
                      \<lparr>queued_signals := 0\<rparr>"
    by (auto simp: sim_info_new_def split: if_splits)
  show "emitted s = []" "queued_signals s = 0"
    by (simp_all add: s hydrate_inv init_inv)
  then have "map fst (flushed s) = []"
    by (simp add: flushed_fst)
  then show "flushed s = []" by simp
next
  have "bit (queued_signals (sim_info_new_hydrate ex_watch tracker0)) SIGNAL_ICCID_CHANGED"
    by (simp add: tracker0_def sim_info_new_hydrate_def sim_info_init_def ex_watch_def
      home_sim_def sim_info_set_iccid_def sim_info_set_netreg_def sim_info_update_imsi_def
      sim_info_update_spn_def sim_info_network_check_def sim_info_load_cache_def
      load_cache_imsi_def load_cache_spn_def no_entries_def Let_def
      sim_info_set_spn_def sim_info_set_cached_spn_def sim_info_update_default_spn_def
      sim_info_update_public_spn_def
      default_spn_buf_def DEFAULT_SPN_BUFSIZE_def bit_set_signal bit_signal_bit
      SIGNAL_ICCID_CHANGED_def netreg_everywhere_def unregistered_def)
  then show "queued_signals (sim_info_new_hydrate ex_watch tracker0) \<noteq> 0"
    by auto
qed

theorem construction_is_silent_witness:
  "sim_info_new (Some ''/ril_0'') ex_watch no_entries no_entries = Some ex_tracker \<and>
   emitted ex_tracker = [] \<and> queued_signals ex_tracker = 0 \<and> flushed ex_tracker = []"
proof -
  have n: "sim_info_new (Some ''/ril_0'') ex_watch no_entries no_entries = Some ex_tracker"
    by (simp add: sim_info_new_def ex_tracker_def)
  show ?thesis
    using construction_is_silent [of "Some ''/ril_0''" ex_watch no_entries no_entries ex_tracker] n
    by simp
qed

subsection \<open>The two flushes to the store\<close>

lemma update_imsi_cache_writes:
  "sim_info_update_imsi_cache s =
     (if update_imsi_cache s \<and> nonempty (imsi s) \<and> nonempty (cached_spn s)
      then if stored_spn s \<noteq> cached_spn s
           then s\<lparr>store_cache := (store_cache s)(the (imsi s) := cached_spn s),
                  writes := writes s @
                    [Write_cache (the (imsi s)) (stored_spn s) (the (cached_spn s))],
                  update_imsi_cache := False\<rparr>
           else s\<lparr>update_imsi_cache := False\<rparr>
      else s)"
  by (auto simp: sim_info_update_imsi_cache_def stored_spn_def Let_def nonempty_def
      split: option.splits)

lemma update_iccid_map_writes:
  "sim_info_update_iccid_map s =
     (if update_iccid_map s \<and> nonempty (iccid s) \<and> nonempty (imsi s)
      then if stored_imsi s \<noteq> imsi s
           then s\<lparr>store_iccidmap := (store_iccidmap s)(the (iccid s) := imsi s),
                  writes := writes s @
                    [Write_iccidmap (the (iccid s)) (stored_imsi s) (the (imsi s))],
                  update_iccid_map := False\<rparr>
           else s\<lparr>update_iccid_map := False\<rparr>
      else s)"
  by (auto simp: sim_info_update_iccid_map_def stored_imsi_def Let_def nonempty_def
      split: option.splits)

text \<open>
  C4: either flush commits to the store only when its dirty flag is set, key and value
  are non-empty and the value read back differs from the one in memory; without a commit
  the stored entries are untouched; when the value read back equals the one in memory
  nothing is committed and the flag is cleared; and along every event sequence each
  commit wrote a value other than the one the entry held.
\<close>

theorem flush_writes_only_changes:
  "(writes (sim_info_update_imsi_cache s) \<noteq> writes s \<longrightarrow>
      update_imsi_cache s \<and> nonempty (imsi s) \<and> nonempty (cached_spn s) \<and>
      stored_spn s \<noteq> cached_spn s) \<and>
   (writes (sim_info_update_imsi_cache s) = writes s \<longrightarrow>
      store_cache (sim_info_update_imsi_cache s) = store_cache s \<and>
      store_iccidmap (sim_info_update_imsi_cache s) = store_iccidmap s) \<and>
   (update_imsi_cache s \<and> nonempty (imsi s) \<and> nonempty (cached_spn s) \<and>
    stored_spn s = cached_spn s \<longrightarrow>
      writes (sim_info_update_imsi_cache s) = writes s \<and>
      \<not> update_imsi_cache (sim_info_update_imsi_cache s)) \<and>
   (writes (sim_info_update_iccid_map s) \<noteq> writes s \<longrightarrow>
      update_iccid_map s \<and> nonempty (iccid s) \<and> nonempty (imsi s) \<and>
      stored_imsi s \<noteq> imsi s) \<and>
   (writes (sim_info_update_iccid_map s) = writes s \<longrightarrow>
      store_cache (sim_info_update_iccid_map s) = store_cache s \<and>
      store_iccidmap (sim_info_update_iccid_map s) = store_iccidmap s) \<and>
   (update_iccid_map s \<and> nonempty (iccid s) \<and> nonempty (imsi s) \<and>
    stored_imsi s = imsi s \<longrightarrow>
      writes (sim_info_update_iccid_map s) = writes s \<and>
      \<not> update_iccid_map (sim_info_update_iccid_map s)) \<and>
   (reachable s \<longrightarrow> writes_minimal (writes s))"
proof -
  have "reachable s \<longrightarrow> writes_minimal (writes s)"
    using reachable_inv [of s] by (simp add: tracker_inv_def)
  moreover have
    "writes (sim_info_update_imsi_cache s) \<noteq> writes s \<longrightarrow>
      update_imsi_cache s \<and> nonempty (imsi s) \<and> nonempty (cached_spn s) \<and>
      stored_spn s \<noteq> cached_spn s"
    "writes (sim_info_update_imsi_cache s) = writes s \<longrightarrow>
      store_cache (sim_info_update_imsi_cache s) = store_cache s \<and>
      store_iccidmap (sim_info_update_imsi_cache s) = store_iccidmap s"
    "update_imsi_cache s \<and> nonempty (imsi s) \<and> nonempty (cached_spn s) \<and>
     stored_spn s = cached_spn s \<longrightarrow>
      writes (sim_info_update_imsi_cache s) = writes s \<and>
      \<not> update_imsi_cache (sim_info_update_imsi_cache s)"
    by (simp_all add: update_imsi_cache_writes)
  moreover have
    "writes (sim_info_update_iccid_map s) \<noteq> writes s \<longrightarrow>
      update_iccid_map s \<and> nonempty (iccid s) \<and> nonempty (imsi s) \<and>
      stored_imsi s \<noteq> imsi s"
    "writes (sim_info_update_iccid_map s) = writes s \<longrightarrow>
      store_cache (sim_info_update_iccid_map s) = store_cache s \<and>
      store_iccidmap (sim_info_update_iccid_map s) = store_iccidmap s"
    "update_iccid_map s \<and> nonempty (iccid s) \<and> nonempty (imsi s) \<and>
     stored_imsi s = imsi s \<longrightarrow>
      writes (sim_info_update_iccid_map s) = writes s \<and>
      \<not> update_iccid_map (sim_info_update_iccid_map s)"
    by (simp_all add: update_iccid_map_writes)
  ultimately show ?thesis by blast
qed

lemma ex_tracker_store:
  "store_cache ex_tracker ''244910000000001'' = Some ''RealSPN''"
  "store_iccidmap ex_tracker ''8901'' = Some ''244910000000001''"
  "update_imsi_cache ex_tracker = False" "update_iccid_map ex_tracker = False"
  "writes ex_tracker =
     [Write_iccidmap ''8901'' None ''244910000000001'',
      Write_cache ''244910000000001'' None ''RealSPN'']"
  by (simp_all add: ex_tracker_def sim_info_new_hydrate_def sim_info_init_def ex_watch_def
      home_sim_def sim_info_set_iccid_def sim_info_set_netreg_def sim_info_update_imsi_def
      sim_info_update_spn_def sim_info_network_check_def sim_info_load_cache_def
      load_cache_imsi_def load_cache_spn_def no_entries_def Let_def
      sim_info_set_spn_def sim_info_set_cached_spn_def sim_info_update_default_spn_def
      sim_info_update_imsi_cache_def sim_info_update_iccid_map_def
      default_spn_buf_def DEFAULT_SPN_BUFSIZE_def)

theorem flush_writes_only_changes_witness:
  "writes (sim_info_update_imsi_cache dirty_tracker) \<noteq> writes dirty_tracker \<and>
   stored_spn dirty_tracker \<noteq> cached_spn dirty_tracker \<and>
   writes (sim_info_update_iccid_map dirty_tracker) \<noteq> writes dirty_tracker \<and>
   stored_imsi dirty_tracker \<noteq> imsi dirty_tracker \<and>
   update_imsi_cache synced_tracker \<and> stored_spn synced_tracker = cached_spn synced_tracker \<and>
   writes (sim_info_update_imsi_cache synced_tracker) = writes synced_tracker \<and>
   store_cache (sim_info_update_imsi_cache synced_tracker) = store_cache synced_tracker \<and>
   \<not> update_imsi_cache (sim_info_update_imsi_cache synced_tracker) \<and>
   update_iccid_map synced_tracker \<and> stored_imsi synced_tracker = imsi synced_tracker \<and>
   writes (sim_info_update_iccid_map synced_tracker) = writes synced_tracker \<and>
   store_iccidmap (sim_info_update_iccid_map synced_tracker) = store_iccidmap synced_tracker \<and>
   \<not> update_iccid_map (sim_info_update_iccid_map synced_tracker) \<and>
   reachable ex_tracker \<and> writes_minimal (writes ex_tracker)"
proof -
  have d: "writes (sim_info_update_imsi_cache dirty_tracker) \<noteq> writes dirty_tracker"
    "writes (sim_info_update_iccid_map dirty_tracker) \<noteq> writes dirty_tracker"
    by (simp_all add: update_imsi_cache_writes update_iccid_map_writes dirty_tracker_def
        ex_tracker_fields stored_spn_def stored_imsi_def no_entries_def)
  have y: "update_imsi_cache synced_tracker \<and> nonempty (imsi synced_tracker) \<and>
      nonempty (cached_spn synced_tracker) \<and>
      stored_spn synced_tracker = cached_spn synced_tracker"
    "update_iccid_map synced_tracker \<and> nonempty (iccid synced_tracker) \<and>
      nonempty (imsi synced_tracker) \<and>
      stored_imsi synced_tracker = imsi synced_tracker"
    by (simp_all add: synced_tracker_def ex_tracker_fields ex_tracker_store stored_spn_def
        stored_imsi_def)
  show ?thesis
    using flush_writes_only_changes [of dirty_tracker]
      flush_writes_only_changes [of synced_tracker]
      flush_writes_only_changes [of ex_tracker] d y ex_tracker_reachable
    by simp
qed

subsection \<open>Home-network inference\<close>

lemma set_cached_spn_fields [simp]:
  "netreg (sim_info_set_cached_spn s v) = netreg s"
  "iccid (sim_info_set_cached_spn s v) = iccid s"
  "imsi (sim_info_set_cached_spn s v) = imsi s"
  "sim_spn (sim_info_set_cached_spn s v) = sim_spn s"
  "default_spn (sim_info_set_cached_spn s v) = default_spn s"
  "update_iccid_map (sim_info_set_cached_spn s v) = update_iccid_map s"
  "store_iccidmap (sim_info_set_cached_spn s v) = store_iccidmap s"
  "cached_spn (sim_info_set_cached_spn s v) = Some v"
  by (simp_all add: sim_info_set_cached_spn_def)

lemma network_check_eq:
  "sim_info_network_check watch s =
     (if home_network watch s
      then sim_info_set_cached_spn s (the (operator_name watch s))
      else s)"
  by (auto simp: sim_info_network_check_def home_network_def same_code_def
      operator_name_def Let_def nonempty_def split: option.splits)

text \<open>
  C6: the operator name is adopted into the cached SPN if and only if the SIM is present
  and ready, the status is registered or roaming, the SIM's MCC and MNC equal the
  network's, an operator name is available and no SIM SPN is set; otherwise the state,
  the cached SPN included, is left as it is; and the SIM SPN is never touched.
\<close>

theorem network_check_home_network:
  "(home_network watch s \<longrightarrow>
      (\<exists>n. operator_name watch s = Some n \<and> n \<noteq> [] \<and>
           sim_info_network_check watch s = sim_info_set_cached_spn s n \<and>
           cached_spn (sim_info_network_check watch s) = Some n)) \<and>
   (\<not> home_network watch s \<longrightarrow> sim_info_network_check watch s = s) \<and>
   sim_spn (sim_info_network_check watch s) = sim_spn s"
proof (intro conjI impI)
  assume h: "home_network watch s"
  then obtain n where n: "operator_name watch s = Some n" "n \<noteq> []"
    by (auto simp: home_network_def nonempty_def split: option.splits)
  with h show "\<exists>n. operator_name watch s = Some n \<and> n \<noteq> [] \<and>
           sim_info_network_check watch s = sim_info_set_cached_spn s n \<and>
           cached_spn (sim_info_network_check watch s) = Some n"
    by (simp add: network_check_eq)
next
  assume "\<not> home_network watch s"
  then show "sim_info_network_check watch s = s" by (simp add: network_check_eq)
next
  show "sim_spn (sim_info_network_check watch s) = sim_spn s"
    by (simp add: network_check_eq)
qed

theorem network_check_home_network_witness:
  "home_network home_watch attached_tracker \<and>
   cached_spn attached_tracker = None \<and>
   cached_spn (sim_info_network_check home_watch attached_tracker) = Some ''Operator'' \<and>
   \<not> home_network abroad_watch attached_tracker \<and>
   sim_info_network_check abroad_watch attached_tracker = attached_tracker \<and>
   \<not> home_network home_watch (attached_tracker\<lparr>sim_spn := Some ''RealSPN''\<rparr>) \<and>
   sim_info_network_check home_watch (attached_tracker\<lparr>sim_spn := Some ''RealSPN''\<rparr>) =
     attached_tracker\<lparr>sim_spn := Some ''RealSPN''\<rparr>"
proof -
  have h: "home_network home_watch attached_tracker"
    "operator_name home_watch attached_tracker = Some ''Operator''"
    "cached_spn attached_tracker = None"
    by (simp_all add: home_network_def same_code_def operator_name_def
        home_watch_def ex_watch_def home_sim_def home_netreg_def netreg_only_def
        attached_tracker_def tracker0_def sim_info_init_def)
  have n: "\<not> home_network abroad_watch attached_tracker"
    "\<not> home_network home_watch (attached_tracker\<lparr>sim_spn := Some ''RealSPN''\<rparr>)"
    by (simp_all add: home_network_def same_code_def operator_name_def
        abroad_watch_def home_watch_def ex_watch_def home_sim_def abroad_netreg_def
        netreg_only_def attached_tracker_def tracker0_def sim_info_init_def)
  show ?thesis
    using network_check_home_network [of home_watch attached_tracker]
      network_check_home_network [of abroad_watch attached_tracker]
      network_check_home_network
        [of home_watch "attached_tracker\<lparr>sim_spn := Some ''RealSPN''\<rparr>"] h n
    by simp
qed

subsection \<open>Losing the ICCID\<close>

lemma imsi_only_tracker_fields:
  "iccid imsi_only_tracker = None" "imsi imsi_only_tracker = Some ''244910000000001''"
  by (simp_all add: imsi_only_tracker_def tracker0_def sim_info_new_hydrate_def
      sim_info_init_def imsi_only_watch_def sim_info_set_iccid_def sim_info_set_netreg_def
      sim_info_update_imsi_def sim_info_update_spn_def sim_info_network_check_def
      Let_def sim_info_update_default_spn_def sim_info_update_imsi_cache_def
      sim_info_update_iccid_map_def default_spn_buf_def)

lemma imsi_only_tracker_reachable: "reachable imsi_only_tracker"
  by (rule reach_new [of "Some ''/ril_0''" imsi_only_watch no_entries no_entries])
     (simp add: sim_info_new_def imsi_only_tracker_def tracker0_def)

text \<open>
  C7, as stated, fails: a tracker built while the Watch reports an IMSI but no ICCID
  tracks that IMSI with an absent ICCID; setting the ICCID to absent then changes
  nothing, and the IMSI stays.
\<close>

theorem set_iccid_absent_counterexample:
  "reachable imsi_only_tracker \<and> watch_iccid imsi_only_watch = None \<and>
   imsi (sim_info_set_iccid imsi_only_watch imsi_only_tracker None) =
     Some ''244910000000001'' \<and>
   imsi (sim_info_iccid_watch_cb imsi_only_watch imsi_only_tracker) =
     Some ''244910000000001''"
  by (simp add: imsi_only_tracker_reachable imsi_only_tracker_fields
      sim_info_iccid_watch_cb_def sim_info_set_iccid_def imsi_only_watch_def)

lemma set_iccid_None:
  "iccid s \<noteq> None \<Longrightarrow>
   sim_info_set_iccid watch s None =
     sim_info_update_public_spn
       (s\<lparr>iccid := None, imsi := None, sim_spn := None, cached_spn := None,
           default_spn := [],
           queued_signals :=
             (if imsi s \<noteq> None
              then (queued_signals s OR sim_info_signal_bit SIGNAL_ICCID_CHANGED) OR
                   sim_info_signal_bit SIGNAL_IMSI_CHANGED
              else queued_signals s OR sim_info_signal_bit SIGNAL_ICCID_CHANGED)\<rparr>)"
  by (cases s) (auto simp: sim_info_set_iccid_def sim_info_signal_queue_def Let_def)

text \<open>
  C7, amended: from every prior state whose ICCID is present (and whose public SPN is not
  the empty string, as in every reachable state), setting the ICCID to absent leaves the
  ICCID, the IMSI, the SIM's and the cached SPN and the public SPN absent and the default
  SPN empty; when the ICCID is already absent the state is left as it is; and when the
  prior state had a present ICCID, a non-empty IMSI, a non-empty public SPN and no signal
  queued, the event's flush emits ICCID-changed, IMSI-changed and SPN-changed, each once
  and in that order.
\<close>

theorem set_iccid_absent:
  "(iccid s \<noteq> None \<and> public_spn s \<noteq> Some [] \<longrightarrow>
      iccid (sim_info_set_iccid watch s None) = None \<and>
      imsi (sim_info_set_iccid watch s None) = None \<and>
      sim_spn (sim_info_set_iccid watch s None) = None \<and>
      cached_spn (sim_info_set_iccid watch s None) = None \<and>
      default_spn (sim_info_set_iccid watch s None) = [] \<and>
      public_spn (sim_info_set_iccid watch s None) = None) \<and>
   (iccid s = None \<longrightarrow> sim_info_set_iccid watch s None = s) \<and>
   (iccid s \<noteq> None \<and> nonempty (imsi s) \<and> nonempty (public_spn s) \<and>
    queued_signals s = 0 \<and> watch_iccid watch = None \<longrightarrow>
      map fst (emitted (sim_info_iccid_watch_cb watch s)) =
        map fst (emitted s) @
          [SIGNAL_ICCID_CHANGED, SIGNAL_IMSI_CHANGED, SIGNAL_SPN_CHANGED])"
proof (intro conjI impI)
  assume a: "iccid s \<noteq> None \<and> public_spn s \<noteq> Some []"
  then show "iccid (sim_info_set_iccid watch s None) = None"
    "imsi (sim_info_set_iccid watch s None) = None"
    "sim_spn (sim_info_set_iccid watch s None) = None"
    "cached_spn (sim_info_set_iccid watch s None) = None"
    "default_spn (sim_info_set_iccid watch s None) = []"
    by (simp_all add: set_iccid_None)
  from a show "public_spn (sim_info_set_iccid watch s None) = None"
    by (simp add: set_iccid_None sim_info_update_public_spn_def)
next
  assume "iccid s = None"
  then show "sim_info_set_iccid watch s None = s"
    by (simp add: sim_info_set_iccid_def)
next
  assume a: "iccid s \<noteq> None \<and> nonempty (imsi s) \<and> nonempty (public_spn s) \<and>
    queued_signals s = 0 \<and> watch_iccid watch = None"
  then have i: "imsi s \<noteq> None" and p: "public_spn s \<noteq> Some []" "public_spn s \<noteq> None"
    by (auto simp: nonempty_def split: option.splits)
  have q: "queued_signals (sim_info_set_iccid watch s None) =
             (sim_info_signal_bit SIGNAL_ICCID_CHANGED OR
              sim_info_signal_bit SIGNAL_IMSI_CHANGED) OR
             sim_info_signal_bit SIGNAL_SPN_CHANGED"
    using a i p by (simp add: set_iccid_None sim_info_update_public_spn_def)
  have "map fst (emitted (sim_info_iccid_watch_cb watch s)) =
          map fst (emitted (sim_info_set_iccid watch s None)) @
          filter (bit (queued_signals (sim_info_set_iccid watch s None))) [0..<SIGNAL_COUNT]"
    using a by (simp add: sim_info_iccid_watch_cb_def sim_info_emit_queued_signals_def
        emit_loop_fst)
  also have "\<dots> = map fst (emitted s) @
          [SIGNAL_ICCID_CHANGED, SIGNAL_IMSI_CHANGED, SIGNAL_SPN_CHANGED]"
    unfolding q signal_ids_upt
    by (simp add: bit_set_signal bit_signal_bit SIGNAL_ICCID_CHANGED_def
        SIGNAL_IMSI_CHANGED_def SIGNAL_SPN_CHANGED_def)
  finally show "map fst (emitted (sim_info_iccid_watch_cb watch s)) =
        map fst (emitted s) @
          [SIGNAL_ICCID_CHANGED, SIGNAL_IMSI_CHANGED, SIGNAL_SPN_CHANGED]" .
qed

lemma ex_tracker_public:
  "public_spn ex_tracker = Some ''RealSPN''" "queued_signals ex_tracker = 0"
  "emitted ex_tracker = []"
  using reachable_inv [OF ex_tracker_reachable]
  by (simp_all add: tracker_inv_def public_ok_def spec_public_spn_def ex_tracker_fields)
     (simp add: ex_tracker_def hydrate_inv init_inv)

theorem set_iccid_absent_witness:
  "iccid ex_tracker \<noteq> None \<and> nonempty (imsi ex_tracker) \<and>
   nonempty (public_spn ex_tracker) \<and> queued_signals ex_tracker = 0 \<and>
   watch_iccid imsi_only_watch = None \<and>
   imsi (sim_info_set_iccid imsi_only_watch ex_tracker None) = None \<and>
   public_spn (sim_info_set_iccid imsi_only_watch ex_tracker None) = None \<and>
   emitted (sim_info_iccid_watch_cb imsi_only_watch ex_tracker) \<noteq> [] \<and>
   map fst (emitted (sim_info_iccid_watch_cb imsi_only_watch ex_tracker)) =
     [SIGNAL_ICCID_CHANGED, SIGNAL_IMSI_CHANGED, SIGNAL_SPN_CHANGED] \<and>
   iccid imsi_only_tracker = None \<and>
   sim_info_set_iccid imsi_only_watch imsi_only_tracker None = imsi_only_tracker"
proof -
  have h: "iccid ex_tracker \<noteq> None" "nonempty (imsi ex_tracker)"
    "nonempty (public_spn ex_tracker)" "queued_signals ex_tracker = 0"
    "public_spn ex_tracker \<noteq> Some []" "watch_iccid imsi_only_watch = None"
    "emitted ex_tracker = []"
    by (simp_all add: ex_tracker_fields ex_tracker_public imsi_only_watch_def)
  show ?thesis
    using set_iccid_absent [of ex_tracker imsi_only_watch]
      set_iccid_absent [of imsi_only_tracker imsi_only_watch] h
    by (auto simp: imsi_only_tracker_fields)
qed

subsection \<open>Hydration from the store\<close>

lemma load_cache_imsi_fields [simp]:
  "netreg (load_cache_imsi w s) = netreg s"
  "iccid (load_cache_imsi w s) = iccid s"
  "cached_spn (load_cache_imsi w s) = cached_spn s"
  "sim_spn (load_cache_imsi w s) = sim_spn s"
  "store_cache (load_cache_imsi w s) = store_cache s"
  by (simp_all add: load_cache_imsi_def Let_def split: option.splits)

lemma load_cache_imsi_adopts:
  "iccid s = Some c \<Longrightarrow> c \<noteq> [] \<Longrightarrow> store_iccidmap s c = Some k \<Longrightarrow> k \<noteq> [] \<Longrightarrow>
   imsi s \<noteq> Some k \<Longrightarrow> imsi (load_cache_imsi w s) = Some k"
  by (simp add: load_cache_imsi_def Let_def)

lemma load_cache_imsi_never_marks_map:
  "update_iccid_map (load_cache_imsi w s) \<Longrightarrow> update_iccid_map s"
  by (auto simp: load_cache_imsi_def Let_def update_iccid_map_writes
      split: option.splits if_splits)

lemma load_cache_spn_adopts:
  assumes "imsi s = Some k" "k \<noteq> []" "store_cache s k = Some v" "v \<noteq> []"
    "cached_spn s \<noteq> Some v"
  shows "load_cache_spn s =
           sim_info_update_public_spn
             (sim_info_update_imsi_cache
                (s\<lparr>update_imsi_cache := update_imsi_cache s \<or> nonempty (cached_spn s),
                    cached_spn := Some v\<rparr>))"
proof (cases "nonempty (cached_spn s)")
  case True
  then show ?thesis using assms by (simp add: load_cache_spn_def Let_def)
next
  case False
  have "s\<lparr>cached_spn := Some v\<rparr> =
        s\<lparr>update_imsi_cache := update_imsi_cache s, cached_spn := Some v\<rparr>"
    by (cases s) simp
  with False show ?thesis using assms by (simp add: load_cache_spn_def Let_def)
qed

lemma carrier_tracker_reachable: "reachable carrier_tracker"
  by (rule reach_new [of "Some ''/ril_0''" null_watch
        "one_entry ''244910000000001'' ''MyCarrier''" no_entries])
     (simp add: sim_info_new_def carrier_tracker_def)

lemma load_cache_spn_flush:
  assumes "imsi s = Some k" "k \<noteq> []" "store_cache s k = Some v" "v \<noteq> []"
    "cached_spn s \<noteq> Some v"
  shows "load_cache_spn_reads s =
           Read_cache k #
             (if update_imsi_cache s \<or> nonempty (cached_spn s) then [Read_cache k] else [])"
    and "\<not> update_imsi_cache (load_cache_spn s)"
    and "writes (load_cache_spn s) = writes s"
  using assms
  by (auto simp: load_cache_spn_reads_def update_imsi_cache_reads_def load_cache_spn_def
      sim_info_update_imsi_cache_def Let_def)

text \<open>
  C3, as stated, fails for an IMSI freshly reported by the Watch: the tracker adopts the
  IMSI, the per-IMSI store holds an SPN for it, and that SPN is not adopted: the cached
  and the public SPN stay absent.
\<close>

theorem imsi_report_keeps_cached_spn_counterexample:
  "reachable carrier_tracker \<and>
   watch_imsi imsi_only_watch = Some ''244910000000001'' \<and>
   imsi carrier_tracker = None \<and>
   imsi (sim_info_imsi_watch_cb imsi_only_watch carrier_tracker) =
     Some ''244910000000001'' \<and>
   store_cache (sim_info_imsi_watch_cb imsi_only_watch carrier_tracker)
     ''244910000000001'' = Some ''MyCarrier'' \<and>
   cached_spn (sim_info_imsi_watch_cb imsi_only_watch carrier_tracker) = None \<and>
   public_spn (sim_info_imsi_watch_cb imsi_only_watch carrier_tracker) = None"
  by (simp add: carrier_tracker_reachable)
     (simp add: carrier_tracker_def null_watch_def imsi_only_watch_def
      sim_info_imsi_watch_cb_def sim_info_new_hydrate_def
      sim_info_init_def sim_info_set_iccid_def sim_info_set_netreg_def
      sim_info_update_imsi_def sim_info_update_spn_def sim_info_network_check_def
      Let_def sim_info_update_default_spn_def sim_info_update_imsi_cache_def
      sim_info_update_iccid_map_def default_spn_buf_def one_entry_def)

text \<open>
  C3, amended: whenever the second block of \<^verbatim>\<open>sim_info_load_cache\<close> finds a non-empty
  stored SPN for the tracked IMSI that differs from the cached SPN, it marks the cache
  dirty if a non-empty cached SPN existed, adopts the stored value, runs the cache flush
  and recomputes the public SPN. The mark shows in the reads of the store: after the
  lookup the flush reads the entry back exactly when the flag was set or a non-empty
  cached SPN existed; it finds the adopted value, commits nothing and leaves the flag
  clear. In particular, when an ICCID change hydrates an IMSI from the ICCID to IMSI map,
  the SPN stored for that IMSI becomes the cached SPN and the public SPN follows the
  precedence. An IMSI event from the Watch never adopts a stored SPN: it leaves the
  cached SPN as it is.
\<close>

theorem load_cache_adopts_stored_spn:
  "(imsi s = Some k \<and> k \<noteq> [] \<and> store_cache s k = Some v \<and> v \<noteq> [] \<and>
    cached_spn s \<noteq> Some v \<longrightarrow>
      load_cache_spn s =
        sim_info_update_public_spn
          (sim_info_update_imsi_cache
             (s\<lparr>update_imsi_cache := update_imsi_cache s \<or> nonempty (cached_spn s),
                 cached_spn := Some v\<rparr>)) \<and>
      load_cache_spn_reads s =
        Read_cache k #
          (if update_imsi_cache s \<or> nonempty (cached_spn s) then [Read_cache k] else []) \<and>
      cached_spn (load_cache_spn s) = Some v \<and>
      \<not> update_imsi_cache (load_cache_spn s) \<and>
      writes (load_cache_spn s) = writes s \<and>
      (spn_wf s \<longrightarrow> public_ok (load_cache_spn s))) \<and>
   (iccid s \<noteq> Some c \<and> c \<noteq> [] \<and> store_iccidmap s c = Some k \<and> k \<noteq> [] \<and>
    imsi s \<noteq> Some k \<and> store_cache s k = Some v \<and> v \<noteq> [] \<and>
    cached_spn s \<noteq> Some v \<longrightarrow>
      imsi (sim_info_set_iccid watch s (Some c)) = Some k \<and>
      cached_spn (sim_info_set_iccid watch s (Some c)) = Some v \<and>
      (spn_wf s \<longrightarrow> public_ok (sim_info_set_iccid watch s (Some c)))) \<and>
   cached_spn (sim_info_imsi_watch_cb watch s) = cached_spn s"
proof (intro conjI impI)
  assume a: "imsi s = Some k \<and> k \<noteq> [] \<and> store_cache s k = Some v \<and> v \<noteq> [] \<and>
    cached_spn s \<noteq> Some v"
  then have eq: "load_cache_spn s =
        sim_info_update_public_spn
          (sim_info_update_imsi_cache
             (s\<lparr>update_imsi_cache := update_imsi_cache s \<or> nonempty (cached_spn s),
                 cached_spn := Some v\<rparr>))"
    using load_cache_spn_adopts [of s k v] by simp
  then show "load_cache_spn s =
        sim_info_update_public_spn
          (sim_info_update_imsi_cache
             (s\<lparr>update_imsi_cache := update_imsi_cache s \<or> nonempty (cached_spn s),
                 cached_spn := Some v\<rparr>))" .
  from a show "load_cache_spn_reads s =
        Read_cache k #
          (if update_imsi_cache s \<or> nonempty (cached_spn s) then [Read_cache k] else [])"
    using load_cache_spn_flush(1) [of s k v] by simp
  from a show "\<not> update_imsi_cache (load_cache_spn s)"
    using load_cache_spn_flush(2) [of s k v] by simp
  from a show "writes (load_cache_spn s) = writes s"
    using load_cache_spn_flush(3) [of s k v] by simp
  show "cached_spn (load_cache_spn s) = Some v"
    unfolding eq by simp
  assume "spn_wf s"
  with a show "public_ok (load_cache_spn s)"
    unfolding eq by (simp add: update_public_spn_ok)
next
  assume a: "iccid s \<noteq> Some c \<and> c \<noteq> [] \<and> store_iccidmap s c = Some k \<and> k \<noteq> [] \<and>
    imsi s \<noteq> Some k \<and> store_cache s k = Some v \<and> v \<noteq> [] \<and> cached_spn s \<noteq> Some v"
  let ?s1 = "sim_info_signal_queue (s\<lparr>iccid := Some c\<rparr>) SIGNAL_ICCID_CHANGED"
  let ?s2 = "load_cache_imsi watch ?s1"
  have set: "sim_info_set_iccid watch s (Some c) = load_cache_spn ?s2"
    using a by (simp add: sim_info_set_iccid_def sim_info_load_cache_def Let_def)
  have k: "imsi ?s2 = Some k"
    using a load_cache_imsi_adopts [of ?s1 c k watch] by simp
  have eq: "load_cache_spn ?s2 =
        sim_info_update_public_spn
          (sim_info_update_imsi_cache
             (?s2\<lparr>update_imsi_cache := update_imsi_cache ?s2 \<or> nonempty (cached_spn ?s2),
                   cached_spn := Some v\<rparr>))"
    using a k load_cache_spn_adopts [of ?s2 k v] by simp
  show "imsi (sim_info_set_iccid watch s (Some c)) = Some k"
    unfolding set eq using k by simp
  show "cached_spn (sim_info_set_iccid watch s (Some c)) = Some v"
    unfolding set eq by simp
  assume "spn_wf s"
  then have "spn_wf ?s2" by simp
  with a show "public_ok (sim_info_set_iccid watch s (Some c))"
    unfolding set eq by (simp add: update_public_spn_ok)
next
  show "cached_spn (sim_info_imsi_watch_cb watch s) = cached_spn s"
    by (simp add: sim_info_imsi_watch_cb_def sim_info_update_imsi_def Let_def)
qed

lemma known_tracker_fields:
  "iccid known_tracker = None" "imsi known_tracker = None" "cached_spn known_tracker = None"
  "sim_spn known_tracker = None" "public_spn known_tracker = None"
  "default_spn known_tracker = []"
  "store_iccidmap known_tracker = one_entry ''8901'' ''244910000000001''"
  "store_cache known_tracker = one_entry ''244910000000001'' ''MyCarrier''"
  by (simp_all add: known_tracker_def null_watch_def sim_info_new_hydrate_def
      sim_info_init_def sim_info_set_iccid_def sim_info_set_netreg_def
      sim_info_update_imsi_def sim_info_update_spn_def sim_info_network_check_def
      Let_def sim_info_update_default_spn_def default_spn_buf_def)

lemma stale_tracker_reachable: "reachable stale_tracker"
  unfolding stale_tracker_def by (rule reach_store [OF ex_tracker_reachable])

lemma stale_tracker_fields:
  "imsi stale_tracker = Some ''244910000000001''"
  "cached_spn stale_tracker = Some ''RealSPN''"
  "update_imsi_cache stale_tracker = False"
  "store_cache stale_tracker ''244910000000001'' = Some ''MyCarrier''"
  by (simp_all add: stale_tracker_def ex_tracker_fields ex_tracker_store one_entry_def)

theorem load_cache_adopts_stored_spn_witness:
  "reachable stale_tracker \<and> \<not> update_imsi_cache stale_tracker \<and>
   cached_spn stale_tracker = Some ''RealSPN'' \<and>
   store_cache stale_tracker ''244910000000001'' = Some ''MyCarrier'' \<and>
   load_cache_spn_reads stale_tracker =
     [Read_cache ''244910000000001'', Read_cache ''244910000000001''] \<and>
   cached_spn (load_cache_spn stale_tracker) = Some ''MyCarrier'' \<and>
   \<not> update_imsi_cache (load_cache_spn stale_tracker) \<and>
   writes (load_cache_spn stale_tracker) = writes stale_tracker \<and>
   iccid known_tracker \<noteq> Some ''8901'' \<and>
   store_iccidmap known_tracker ''8901'' = Some ''244910000000001'' \<and>
   store_cache known_tracker ''244910000000001'' = Some ''MyCarrier'' \<and>
   spn_wf known_tracker \<and>
   imsi (sim_info_set_iccid iccid_only_watch known_tracker (Some ''8901'')) =
     Some ''244910000000001'' \<and>
   cached_spn (sim_info_set_iccid iccid_only_watch known_tracker (Some ''8901'')) =
     Some ''MyCarrier'' \<and>
   public_spn (sim_info_set_iccid iccid_only_watch known_tracker (Some ''8901'')) =
     Some ''MyCarrier'' \<and>
   cached_spn (sim_info_imsi_watch_cb imsi_only_watch stale_tracker) = Some ''RealSPN''"
proof -
  have h: "iccid known_tracker \<noteq> Some ''8901''"
    "store_iccidmap known_tracker ''8901'' = Some ''244910000000001''"
    "store_cache known_tracker ''244910000000001'' = Some ''MyCarrier''"
    "imsi known_tracker \<noteq> Some ''244910000000001''"
    "cached_spn known_tracker \<noteq> Some ''MyCarrier''"
    "spn_wf known_tracker"
    by (simp_all add: known_tracker_fields one_entry_def spn_wf_def)
  have d: "default_spn (sim_info_set_iccid iccid_only_watch known_tracker (Some ''8901'')) = []"
    "sim_spn (sim_info_set_iccid iccid_only_watch known_tracker (Some ''8901'')) = None"
    by (simp_all add: sim_info_set_iccid_def Let_def known_tracker_fields
        sim_info_load_cache_def load_cache_imsi_def load_cache_spn_def one_entry_def
        iccid_only_watch_def null_watch_def default_spn_buf_def sim_info_update_default_spn_def)
  have pre: "imsi stale_tracker = Some ''244910000000001'' \<and> ''244910000000001'' \<noteq> [] \<and>
      store_cache stale_tracker ''244910000000001'' = Some ''MyCarrier'' \<and>
      ''MyCarrier'' \<noteq> [] \<and> cached_spn stale_tracker \<noteq> Some ''MyCarrier''"
    by (simp add: stale_tracker_fields)
  note stale = load_cache_adopts_stored_spn [of stale_tracker "''244910000000001''"
      "''MyCarrier''" "''8901''" imsi_only_watch]
  note marked = stale [THEN conjunct1, rule_format, OF pre, THEN conjunct2]
  note kept = stale [THEN conjunct2, THEN conjunct2]
  show ?thesis
    using load_cache_adopts_stored_spn [of known_tracker "''244910000000001''" "''MyCarrier''"
        "''8901''" iccid_only_watch]
      marked kept h d stale_tracker_reachable
    by (simp add: public_ok_def spec_public_spn_def stale_tracker_fields)
qed

subsection \<open>An ICCID change to a known SIM\<close>

lemma swap_tracker_reachable: "reachable swap_tracker"
  by (rule reach_new [of "Some ''/ril_0''" ex_watch no_entries
        "one_entry ''8902'' ''244910000000002''"])
     (simp add: sim_info_new_def swap_tracker_def)

lemma swap_tracker_fields:
  "iccid swap_tracker = Some ''8901''"
  "imsi swap_tracker = Some ''244910000000001''"
  "cached_spn swap_tracker = Some ''RealSPN''"
  "update_imsi_cache swap_tracker = False"
  "update_iccid_map swap_tracker = False"
  "store_iccidmap swap_tracker ''8902'' = Some ''244910000000002''"
  "store_cache swap_tracker ''244910000000002'' = None"
  by (simp_all add: swap_tracker_def sim_info_new_hydrate_def sim_info_init_def ex_watch_def
      home_sim_def sim_info_set_iccid_def sim_info_set_netreg_def sim_info_update_imsi_def
      sim_info_update_spn_def sim_info_network_check_def sim_info_load_cache_def
      load_cache_imsi_def load_cache_spn_def no_entries_def one_entry_def Let_def
      sim_info_set_spn_def sim_info_set_cached_spn_def sim_info_update_default_spn_def
      sim_info_update_imsi_cache_def sim_info_update_iccid_map_def
      default_spn_buf_def DEFAULT_SPN_BUFSIZE_def)

text \<open>
  C2: when the ICCID changes to one whose stored IMSI differs from a non-empty tracked
  IMSI, the stored IMSI is adopted and IMSI-changed is queued, but the flag the source
  sets is the one of the per-IMSI SPN cache: the dirty flag of the ICCID to IMSI map is
  clear before and after, and the flag of the SPN cache is left set.
\<close>

theorem load_cache_marks_wrong_flag:
  "reachable swap_tracker \<and>
   imsi swap_tracker = Some ''244910000000001'' \<and>
   \<not> update_iccid_map swap_tracker \<and> \<not> update_imsi_cache swap_tracker \<and>
   store_iccidmap swap_tracker ''8902'' = Some ''244910000000002'' \<and>
   sim_info_set_iccid swap_watch swap_tracker (Some ''8902'') =
     sim_info_load_cache swap_watch swap_entry \<and>
   load_cache_imsi swap_watch swap_entry =
     sim_info_signal_queue
       (sim_info_update_default_spn swap_watch
          (sim_info_update_iccid_map
             (swap_entry\<lparr>update_imsi_cache := True,
                          imsi := Some ''244910000000002''\<rparr>)))
       SIGNAL_IMSI_CHANGED \<and>
   \<not> update_iccid_map
        (swap_entry\<lparr>update_imsi_cache := True, imsi := Some ''244910000000002''\<rparr>) \<and>
   imsi (sim_info_set_iccid swap_watch swap_tracker (Some ''8902'')) =
     Some ''244910000000002'' \<and>
   bit (queued_signals (sim_info_set_iccid swap_watch swap_tracker (Some ''8902'')))
     SIGNAL_IMSI_CHANGED \<and>
   \<not> update_iccid_map (sim_info_set_iccid swap_watch swap_tracker (Some ''8902'')) \<and>
   update_imsi_cache (sim_info_set_iccid swap_watch swap_tracker (Some ''8902''))"
proof -
  have "sim_info_set_iccid swap_watch swap_tracker (Some ''8902'') =
     sim_info_load_cache swap_watch swap_entry"
    by (simp add: sim_info_set_iccid_def swap_entry_def swap_tracker_fields Let_def)
  moreover have "load_cache_imsi swap_watch swap_entry =
     sim_info_signal_queue
       (sim_info_update_default_spn swap_watch
          (sim_info_update_iccid_map
             (swap_entry\<lparr>update_imsi_cache := True,
                          imsi := Some ''244910000000002''\<rparr>)))
       SIGNAL_IMSI_CHANGED"
    by (simp add: load_cache_imsi_def swap_entry_def swap_tracker_fields Let_def)
  moreover have
    "\<not> update_iccid_map
        (swap_entry\<lparr>update_imsi_cache := True, imsi := Some ''244910000000002''\<rparr>)"
    by (simp add: swap_entry_def swap_tracker_fields)
  moreover have
    "imsi (sim_info_set_iccid swap_watch swap_tracker (Some ''8902'')) =
       Some ''244910000000002''"
    "bit (queued_signals (sim_info_set_iccid swap_watch swap_tracker (Some ''8902'')))
       SIGNAL_IMSI_CHANGED"
    "\<not> update_iccid_map (sim_info_set_iccid swap_watch swap_tracker (Some ''8902''))"
    "update_imsi_cache (sim_info_set_iccid swap_watch swap_tracker (Some ''8902''))"
    by (simp_all add: sim_info_set_iccid_def sim_info_load_cache_def load_cache_imsi_def
        load_cache_spn_def swap_tracker_fields Let_def update_iccid_map_writes
        bit_set_signal SIGNAL_IMSI_CHANGED_def)
  ultimately show ?thesis
    by (simp add: swap_tracker_reachable swap_tracker_fields)
qed

end
